theory Spec2Isabelle
  imports Complex_Main
begin

section \<open>The video wall: data model\<close>

text \<open>
  The page is a grid of video cells (\<^verbatim>\<open>div.video-cell\<close>), each holding a
  \<^verbatim>\<open>video\<close> element, an add button, a container and a tag badge
  (\<^verbatim>\<open>div.tag-display\<close>). A DOM element is modelled by the attributes, classes and
  style properties the scripts read or write; elements are identified by their position
  among the children of the grid element.
\<close>

record tagDisplay =
  textContent :: string
  backgroundColor :: string
  addMode :: bool

record videoCell =
  dataIndex :: nat
  isEmpty :: bool
  dragging :: bool
  dragover :: bool
  dataTag :: "string option"
  display :: string
  src :: string
  currentTime :: nat
  paused :: bool
  videoDisplay :: string
  containerDisplay :: string
  buttonDisplay :: string
  tagBadge :: "tagDisplay option"

text \<open>
  \<^verbatim>\<open>isEmpty\<close> is the class \<^verbatim>\<open>empty\<close>, \<^verbatim>\<open>dataTag\<close> the attribute
  \<^verbatim>\<open>data-tag\<close> (\<open>None\<close> when absent, as \<^verbatim>\<open>getAttribute\<close> returns null),
  \<^verbatim>\<open>display\<close> the cell's own \<^verbatim>\<open>style.display\<close>; \<^verbatim>\<open>src\<close>,
  \<^verbatim>\<open>currentTime\<close> (in milliseconds) and \<^verbatim>\<open>paused\<close> belong to the video element;
  \<^verbatim>\<open>tagBadge\<close> is the \<^verbatim>\<open>.tag-display\<close> child, \<open>None\<close> once it has been removed.
\<close>

text \<open>
  The messages of the errors that \<^verbatim>\<open>addVideoToCell\<close> creates: \<open>UnsupportedFormat\<close> for
  the whitelist test, \<open>UnsupportedFormatOf t\<close> for the test against
  \<^verbatim>\<open>CONFIG.supportedFormats\<close>, whose message ends with the type \<open>t\<close>, and
  \<open>FileTooLarge\<close> for the size test. A \<open>jsError\<close> is a thrown value: an \<^verbatim>\<open>Error\<close>
  with one of these messages, or a TypeError or SyntaxError raised by the platform.
\<close>

datatype errorMessage =
  UnsupportedFormat
  | UnsupportedFormatOf string
  | FileTooLarge

datatype jsError =
  Error errorMessage
  | TypeError string
  | SyntaxError string

section \<open>TagManager.js\<close>

subsection \<open>The insertion-ordered Map of tags\<close>

type_synonym tagMap = "(string \<times> string) list"

fun mapHas :: "tagMap \<Rightarrow> string \<Rightarrow> bool" where
  "mapHas [] k = False"
| "mapHas ((k', v) # m) k = (if k' = k then True else mapHas m k)"

fun mapGet :: "tagMap \<Rightarrow> string \<Rightarrow> string option" where
  "mapGet [] k = None"
| "mapGet ((k', v) # m) k = (if k' = k then Some v else mapGet m k)"

fun mapSet :: "tagMap \<Rightarrow> string \<Rightarrow> string \<Rightarrow> tagMap" where
  "mapSet [] k v = [(k, v)]"
| "mapSet ((k', v') # m) k v = (if k' = k then (k, v) # m else (k', v') # mapSet m k v)"

fun mapDelete :: "tagMap \<Rightarrow> string \<Rightarrow> tagMap" where
  "mapDelete [] k = []"
| "mapDelete ((k', v) # m) k = (if k' = k then m else (k', v) # mapDelete m k)"

record dropdownOption =
  colorMark :: string
  optionText :: string

record tagManager =
  tags :: tagMap
  dropdown :: "dropdownOption list"
  dropdownHidden :: bool

subsection \<open>generatePastelColor\<close>

text \<open>
  \<^verbatim>\<open>Math.random()\<close> is an input of the model: the functions that may call it take
  the number \<open>r\<close> it would return, a double with \<open>0 \<le> r < 1\<close>, as a rational. The
  hue is \<^verbatim>\<open>Math.floor(r * 360)\<close>, printed in decimal into the template string.

  The product is a double product: the exact product rounded to the nearest double, ties
  to the even significand. \<open>binade e x\<close> is the exponent of \<open>x\<close>, searched downwards
  from \<open>e\<close> and not below the exponent of the subnormal numbers; the product is below
  512, so the search starts at 8. The doubles of that exponent are the multiples of
  \<open>pow2 (e - 52)\<close>.
\<close>

definition pow2 :: "int \<Rightarrow> rat" where
  "pow2 e = (if 0 \<le> e then 2 ^ nat e else 1 / 2 ^ nat (- e))"

function binade :: "int \<Rightarrow> rat \<Rightarrow> int" where
  "binade e x = (if e \<le> - 1022 \<or> pow2 e \<le> x then e else binade (e - 1) x)"
  by pat_completeness auto
termination
  by (relation "measure (\<lambda>(e, x). nat (e + 1022))") auto

declare binade.simps [simp del]

definition nearestEven :: "rat \<Rightarrow> int" where
  "nearestEven q =
     (let n = \<lfloor>q\<rfloor>
      in if q - of_int n < 1 / 2 then n
         else if 1 / 2 < q - of_int n then n + 1
         else if even n then n else n + 1)"

definition roundDouble :: "rat \<Rightarrow> rat" where
  "roundDouble x =
     (if x \<le> 0 then 0
      else (let ulp = pow2 (binade 8 x - 52)
            in of_int (nearestEven (x / ulp)) * ulp))"

definition digits :: string where
  "digits = ''0123456789''"

fun showNat :: "nat \<Rightarrow> string" where
  "showNat n = (if n < 10 then [digits ! n] else showNat (n div 10) @ [digits ! (n mod 10)])"

declare showNat.simps [simp del]

definition generatePastelColor :: "rat \<Rightarrow> string" where
  "generatePastelColor r =
     (let hue = nat \<lfloor>roundDouble (r * 360)\<rfloor>
      in ''hsl('' @ showNat hue @ '', 70%, 80%)'')"

subsection \<open>updateDropdown, addTag, filterVideos\<close>

definition updateDropdown :: "tagManager \<Rightarrow> tagManager" where
  "updateDropdown tm =
     tm\<lparr>dropdown := map (\<lambda>(tagName, color). \<lparr>colorMark = color, optionText = tagName\<rparr>) (tags tm)\<rparr>"

definition addTag :: "rat \<Rightarrow> string \<Rightarrow> tagManager \<Rightarrow> string option \<times> tagManager" where
  "addTag r tag tm =
     (let tm' = (if \<not> mapHas (tags tm) tag
                 then updateDropdown (tm\<lparr>tags := mapSet (tags tm) tag (generatePastelColor r)\<rparr>)
                 else tm)
      in (mapGet (tags tm') tag, tm'))"

definition filterVideos :: "string \<Rightarrow> videoCell list \<Rightarrow> videoCell list" where
  "filterVideos tag cells =
     map (\<lambda>cell. if tag = ''all'' \<or> dataTag cell = Some tag
                  then cell\<lparr>display := ''''\<rparr>
                  else cell\<lparr>display := ''none''\<rparr>) cells"

definition visible :: "videoCell \<Rightarrow> bool" where
  "visible cell = (display cell \<noteq> ''none'')"

subsection \<open>applyTag and addTagToCell\<close>

text \<open>
  \<^verbatim>\<open>addTagToCell\<close> appends a badge in add mode. \<^verbatim>\<open>applyTag\<close> sets the attribute
  first and then writes the badge; when the badge has been removed the write to
  \<^verbatim>\<open>tagDisplay.textContent\<close> throws a TypeError with the attribute already set.
  A colour that is \<^verbatim>\<open>undefined\<close> (tag not in the registry) leaves the background as it
  was. The per-cell tag menu is not part of the model.
\<close>

definition addTagToCell :: "videoCell \<Rightarrow> videoCell" where
  "addTagToCell cell =
     cell\<lparr>tagBadge := Some \<lparr>textContent = ''+'', backgroundColor = [], addMode = True\<rparr>\<rparr>"

definition applyTag :: "tagManager \<Rightarrow> string \<Rightarrow> videoCell \<Rightarrow> videoCell \<times> jsError option" where
  "applyTag tm tag cell =
     (let color = mapGet (tags tm) tag;
          cell1 = cell\<lparr>dataTag := Some tag\<rparr>
      in case tagBadge cell1 of
           None \<Rightarrow> (cell1, Some (TypeError ''tagDisplay is null''))
         | Some badge \<Rightarrow>
             (cell1\<lparr>tagBadge := Some (badge\<lparr>textContent := tag,
                  backgroundColor := (case color of Some c \<Rightarrow> c | None \<Rightarrow> backgroundColor badge),
                  addMode := False\<rparr>)\<rparr>, None))"

subsection \<open>deleteTag\<close>

text \<open>
  \<^verbatim>\<open>deleteTag\<close> selects the cells with
  \<^verbatim>\<open>querySelectorAll(`.video-cell[data-tag="${tag}"]`)\<close>: the tag is pasted between
  double quotes into a CSS attribute selector. \<open>readSelector\<close> reads the text that
  follows the opening quote, that is the tag followed by the closing quote and bracket
  of the template, the way a CSS parser does:
  \<^item> characters up to the first double quote form the string; a line break inside
    it makes a bad string and the selector is rejected with a SyntaxError;
  \<^item> when that quote is the template's own, only the bracket follows and the selector
    selects the cells whose attribute equals the string;
  \<^item> when the quote comes from the tag and an ASCII letter other than i or s follows,
    an identifier that is no attribute modifier follows the string and the selector is
    rejected with a SyntaxError;
  \<^item> every other text (escapes, NUL, further selectors after the quote) is outside
    this model: \<open>Uncovered\<close>.
\<close>

datatype selectorMeaning = Selects string | Rejects | Uncovered

definition doubleQuote :: char where
  "doubleQuote = CHR 0x22"

definition tagSelector :: "string \<Rightarrow> string" where
  "tagSelector tag = ''.video-cell[data-tag='' @ [doubleQuote] @ tag @ [doubleQuote] @ '']''"

definition isAsciiLetter :: "char \<Rightarrow> bool" where
  "isAsciiLetter c = (c \<in> set ''abcdefghijklmnopqrstuvwxyzABCDEFGHIJKLMNOPQRSTUVWXYZ'')"

definition afterString :: "string \<Rightarrow> string \<Rightarrow> selectorMeaning" where
  "afterString val rest =
     (if rest = '']'' then Selects val
      else case rest of
             [] \<Rightarrow> Uncovered
           | c # _ \<Rightarrow> if isAsciiLetter c \<and> c \<notin> set ''isIS'' then Rejects else Uncovered)"

fun cssString :: "string \<Rightarrow> string \<Rightarrow> selectorMeaning" where
  "cssString val [] = Uncovered"
| "cssString val (c # cs) =
     (if c = doubleQuote then afterString val cs
      else if c \<in> {CHR 0x0A, CHR 0x0C, CHR 0x0D} then Rejects
      else if c = CHR 0x5C \<or> c = CHR 0x00 then Uncovered
      else cssString (val @ [c]) cs)"

definition readSelector :: "string \<Rightarrow> selectorMeaning" where
  "readSelector tag = cssString [] (tag @ [doubleQuote] @ '']'')"

datatype outcome = Returned | Threw jsError | NotModelled

definition stripTag :: "videoCell \<Rightarrow> videoCell" where
  "stripTag cell = cell\<lparr>dataTag := None, tagBadge := None\<rparr>"

definition deleteTag ::
  "string \<Rightarrow> tagManager \<times> videoCell list \<Rightarrow> (tagManager \<times> videoCell list) \<times> outcome" where
  "deleteTag tag st =
     (let tm = updateDropdown ((fst st)\<lparr>tags := mapDelete (tags (fst st)) tag\<rparr>)
      in case readSelector tag of
           Selects val \<Rightarrow>
             ((tm, map (\<lambda>cell. if dataTag cell = Some val then stripTag cell else cell) (snd st)),
              Returned)
         | Rejects \<Rightarrow> ((tm, snd st), Threw (SyntaxError (tagSelector tag)))
         | Uncovered \<Rightarrow> ((tm, snd st), NotModelled))"

subsection \<open>The click handler of a dropdown option\<close>

text \<open>
  Each option of the filter dropdown gets the listener
  \<^verbatim>\<open>() => { this.filterByTag(tagName); }\<close>, where \<^verbatim>\<open>this\<close> is the TagManager.
  \<open>tagManagerMethods\<close> lists the methods the class body defines; a property that is
  not among them is \<^verbatim>\<open>undefined\<close>, and calling it throws a TypeError. Of the methods
  that exist, the two that take a tag and act on the page are run by \<open>callMethod\<close>.
\<close>

definition tagManagerMethods :: "string list" where
  "tagManagerMethods =
     [''constructor'', ''generatePastelColor'', ''initializeFilterButton'', ''updateDropdown'',
      ''addTag'', ''deleteTag'', ''filterVideos'', ''setupEventListeners'', ''addTagToCell'',
      ''showTagMenu'', ''createNewTag'', ''applyTag'']"

definition callMethod ::
  "string \<Rightarrow> string \<Rightarrow> tagManager \<times> videoCell list \<Rightarrow> (tagManager \<times> videoCell list) \<times> outcome" where
  "callMethod name arg st =
     (if name \<notin> set tagManagerMethods
      then (st, Threw (TypeError (''this.'' @ name @ '' is not a function'')))
      else if name = ''filterVideos'' then ((fst st, filterVideos arg (snd st)), Returned)
      else if name = ''deleteTag'' then deleteTag arg st
      else (st, NotModelled))"

definition dropdownOptionClick ::
  "string \<Rightarrow> tagManager \<times> videoCell list \<Rightarrow> (tagManager \<times> videoCell list) \<times> outcome" where
  "dropdownOptionClick tagName st = callMethod ''filterByTag'' tagName st"

section \<open>VideoGrid.js\<close>

subsection \<open>Configuration, files and the controller's state\<close>

text \<open>
  The global \<^verbatim>\<open>CONFIG\<close> object comes from a configuration script of its own; the
  model takes it as a parameter. \<^verbatim>\<open>layouts\<close> is read as
  \<^verbatim>\<open>CONFIG.layouts[layout][CONFIG.aspectRatios[ratio]]\<close> and yields the cell count and
  the column count of a layout.
\<close>

record layoutConfig =
  cells :: nat
  columns :: nat

record config =
  layouts :: "string \<Rightarrow> string \<Rightarrow> layoutConfig"
  aspectRatios :: "string \<Rightarrow> string"
  supportedFormats :: "string list"

text \<open>
  A \<^verbatim>\<open>File\<close> has its MIME type and its size in bytes. \<^verbatim>\<open>URL.createObjectURL\<close>
  returns a blob URI for it: the scheme \<^verbatim>\<open>blob:\<close> followed by an origin and an
  identifier, which are \<open>blobPath\<close>.
\<close>

record videoFile =
  fileType :: string
  fileSize :: nat
  blobPath :: string

definition createObjectURL :: "videoFile \<Rightarrow> string" where
  "createObjectURL file = ''blob:'' @ blobPath file"

text \<open>
  The controller: \<open>documentURL\<close> is the URL of the page that holds the grid,
  \<open>gridCells\<close> are the children of the grid element, \<open>dragSource\<close>
  is the variable closed over by the swap listeners (the position of the dragged cell),
  \<open>errorMessages\<close> records the calls of \<^verbatim>\<open>showErrorMessage\<close>, and \<open>console\<close> those of
  \<^verbatim>\<open>console.error\<close>.
\<close>

record videoGrid =
  documentURL :: string
  currentLayout :: string
  currentAspectRatio :: string
  className :: string
  gridCells :: "videoCell list"
  isPlaying :: bool
  tagManager :: tagManager
  isExtended :: bool
  overflowY :: string
  dragSource :: "nat option"
  errorMessages :: "errorMessage list"
  console :: "jsError list"

record videoState =
  savedSrc :: string
  savedIsEmpty :: bool
  savedTag :: "string option"
  savedIsPlaying :: bool

record cellState =
  stateSrc :: string
  stateCurrentTime :: nat
  stateIsPlaying :: bool
  stateIsEmpty :: bool
  stateButtonDisplay :: string
  stateVideoDisplay :: string
  stateContainerDisplay :: string

subsection \<open>Helpers for the DOM and for JavaScript values\<close>

text \<open>
  The field \<open>src\<close> of a cell is what the getter \<^verbatim>\<open>video.src\<close> returns: the empty
  string while the element has no \<^verbatim>\<open>src\<close> attribute, and otherwise the attribute
  resolved against the URL of the document. The scripts assign a blob URI or a value
  read from the getter before, that is an absolute URL, which resolves to itself, or the
  empty string, which resolves to the URL of the document, \<open>base\<close>. Assigning
  \<^verbatim>\<open>video.src\<close> also starts the media element's load algorithm: playback stops and the
  position goes back to the start.
\<close>

definition setVideoSrc :: "string \<Rightarrow> string \<Rightarrow> videoCell \<Rightarrow> videoCell" where
  "setVideoSrc base s cell =
     cell\<lparr>src := (if s = [] then base else s), currentTime := 0, paused := True\<rparr>"

definition truthy :: "string option \<Rightarrow> bool" where
  "truthy v = (case v of None \<Rightarrow> False | Some s \<Rightarrow> s \<noteq> [])"

definition startsWith :: "string \<Rightarrow> string \<Rightarrow> bool" where
  "startsWith s p = (take (length p) s = p)"

fun indexOf :: "nat list \<Rightarrow> nat \<Rightarrow> int" where
  "indexOf [] x = -1"
| "indexOf (y # ys) x =
     (if y = x then 0 else (let r = indexOf ys x in if r < 0 then -1 else r + 1))"

definition updateCell :: "nat \<Rightarrow> (videoCell \<Rightarrow> videoCell) \<Rightarrow> videoCell list \<Rightarrow> videoCell list" where
  "updateCell i f cs = (if i < length cs then cs[i := f (cs ! i)] else cs)"

definition emptyCellsOf :: "videoCell list \<Rightarrow> nat list" where
  "emptyCellsOf cs = filter (\<lambda>i. isEmpty (cs ! i)) [0..<length cs]"

text \<open>
  \<^verbatim>\<open>Math.ceil(n / columns) * columns\<close>. With zero columns the quotient is infinite or
  NaN and the product is NaN (\<open>None\<close>): a loop bounded by it does not run, and a
  comparison with it is false.
\<close>

definition fullRows :: "nat \<Rightarrow> nat \<Rightarrow> nat option" where
  "fullRows n cols = (if cols = 0 then None else Some (((n + cols - 1) div cols) * cols))"

definition layoutConfigOf :: "config \<Rightarrow> videoGrid \<Rightarrow> layoutConfig" where
  "layoutConfigOf cfg vg = layouts cfg (currentLayout vg) (aspectRatios cfg (currentAspectRatio vg))"

subsection \<open>createVideoCell, initGrid, extendGrid\<close>

definition createVideoCell :: "nat \<Rightarrow> videoCell" where
  "createVideoCell index =
     addTagToCell \<lparr>dataIndex = index, isEmpty = True, dragging = False, dragover = False,
       dataTag = None, display = [], src = [], currentTime = 0, paused = True,
       videoDisplay = ''none'', containerDisplay = ''none'', buttonDisplay = ''flex'',
       tagBadge = None\<rparr>"

definition updateGridClass :: "config \<Rightarrow> videoGrid \<Rightarrow> videoGrid" where
  "updateGridClass cfg vg =
     vg\<lparr>className := ''video-grid layout-'' @ currentLayout vg @ '' ''
          @ aspectRatios cfg (currentAspectRatio vg)\<rparr>"

definition initGrid :: "config \<Rightarrow> videoGrid \<Rightarrow> videoGrid" where
  "initGrid cfg vg =
     (let cellCount = cells (layoutConfigOf cfg vg)
      in vg\<lparr>gridCells := map createVideoCell [0..<cellCount]\<rparr>)"

definition extendGrid :: "config \<Rightarrow> nat \<Rightarrow> videoGrid \<Rightarrow> videoGrid" where
  "extendGrid cfg additionalVideos vg =
     (let cellsPerRow = columns (layoutConfigOf cfg vg);
          currentCells = length (gridCells vg)
      in case fullRows additionalVideos cellsPerRow of
           None \<Rightarrow> vg
         | Some neededCells \<Rightarrow>
             vg\<lparr>gridCells := gridCells vg
                  @ map (\<lambda>i. createVideoCell (currentCells + i)) [0..<neededCells]\<rparr>)"

definition setupScrollHandler :: "videoGrid \<Rightarrow> videoGrid" where
  "setupScrollHandler vg =
     (if \<not> isExtended vg then vg\<lparr>overflowY := ''hidden''\<rparr> else vg\<lparr>overflowY := ''scroll''\<rparr>)"

subsection \<open>addVideoToCell and addMultipleVideos\<close>

text \<open>
  \<^verbatim>\<open>addVideoToCell\<close> returns the state and the error that leaves the function, if
  one does. The whitelist test stands before the \<^verbatim>\<open>try\<close>; the tests against
  \<^verbatim>\<open>CONFIG.supportedFormats\<close> and the size limit stand inside it, and their errors
  reach the \<^verbatim>\<open>catch\<close>, which logs and calls \<^verbatim>\<open>showErrorMessage\<close>.
\<close>

definition safeVideoTypes :: "string list" where
  "safeVideoTypes = [''video/mp4'', ''video/webm'', ''video/ogg'']"

definition MAX_FILE_SIZE :: nat where
  "MAX_FILE_SIZE = 100 * 1024 * 1024"

definition catchError :: "errorMessage \<Rightarrow> videoGrid \<Rightarrow> videoGrid" where
  "catchError m vg =
     vg\<lparr>console := console vg @ [Error m], errorMessages := errorMessages vg @ [m]\<rparr>"

definition showVideo :: "string \<Rightarrow> string \<Rightarrow> videoCell \<Rightarrow> videoCell" where
  "showVideo base url cell =
     (setVideoSrc base url cell)\<lparr>videoDisplay := ''block'', containerDisplay := ''block'',
        buttonDisplay := ''none'', isEmpty := False\<rparr>"

definition addVideoToCell :: "config \<Rightarrow> nat \<Rightarrow> videoFile \<Rightarrow> videoGrid \<Rightarrow> videoGrid \<times> jsError option" where
  "addVideoToCell cfg cell file vg =
     (if fileType file \<notin> set safeVideoTypes then (vg, Some (Error UnsupportedFormat))
      else if fileType file \<notin> set (supportedFormats cfg)
        then (catchError (UnsupportedFormatOf (fileType file)) vg, None)
      else if fileSize file > MAX_FILE_SIZE
        then (catchError FileTooLarge vg, None)
      else (vg\<lparr>gridCells := updateCell cell (showVideo (documentURL vg) (createObjectURL file))
                               (gridCells vg)\<rparr>, None))"

text \<open>
  The \<^verbatim>\<open>forEach\<close> of \<^verbatim>\<open>addMultipleVideos\<close>: \<open>emptyCells\<close> is the array taken before
  the loop, \<open>currentCellIndex\<close> the running index into it. An error that leaves
  \<^verbatim>\<open>addVideoToCell\<close> leaves the loop and the function.
\<close>

fun addFiles :: "config \<Rightarrow> nat list \<Rightarrow> videoFile list \<Rightarrow> int \<Rightarrow> videoGrid \<Rightarrow> videoGrid \<times> jsError option" where
  "addFiles cfg emptyCells [] currentCellIndex vg = (vg, None)"
| "addFiles cfg emptyCells (file # files) currentCellIndex vg =
     (if startsWith (fileType file) ''video/'' then
        (if currentCellIndex \<ge> 0 \<and> currentCellIndex < int (length emptyCells) then
           (case addVideoToCell cfg (emptyCells ! nat currentCellIndex) file vg of
              (vg', Some e) \<Rightarrow> (vg', Some e)
            | (vg', None) \<Rightarrow> addFiles cfg emptyCells files (currentCellIndex + 1) vg')
         else addFiles cfg emptyCells files currentCellIndex vg)
      else addFiles cfg emptyCells files currentCellIndex vg)"

definition addMultipleVideos :: "config \<Rightarrow> videoFile list \<Rightarrow> nat \<Rightarrow> videoGrid \<Rightarrow> videoGrid \<times> jsError option" where
  "addMultipleVideos cfg files startCell vg =
     (let emptyCells = emptyCellsOf (gridCells vg);
          currentCellIndex = indexOf emptyCells startCell;
          totalNeededCells = currentCellIndex + int (length files)
      in if totalNeededCells > int (length emptyCells)
         then (let vg1 = extendGrid cfg (length files) vg;
                   emptyCells1 = emptyCellsOf (gridCells vg1);
                   vg2 = setupScrollHandler (vg1\<lparr>isExtended := True\<rparr>)
               in addFiles cfg emptyCells1 files currentCellIndex vg2)
         else addFiles cfg emptyCells files currentCellIndex vg)"

subsection \<open>saveVideoStates, restoreVideoStates and the two toggles\<close>

definition saveVideoStates :: "videoGrid \<Rightarrow> videoState list" where
  "saveVideoStates vg =
     map (\<lambda>cell. \<lparr>savedSrc = src cell, savedIsEmpty = isEmpty cell,
                   savedTag = dataTag cell, savedIsPlaying = \<not> paused cell\<rparr>) (gridCells vg)"

definition hideVideo :: "videoCell \<Rightarrow> videoCell" where
  "hideVideo cell =
     cell\<lparr>videoDisplay := ''none'', containerDisplay := ''none'',
          buttonDisplay := ''flex'', isEmpty := True\<rparr>"

definition restoreCell ::
  "string \<Rightarrow> tagManager \<Rightarrow> videoState \<Rightarrow> videoCell \<Rightarrow> videoCell \<times> jsError option" where
  "restoreCell base tm state cell =
     (if savedSrc state \<noteq> [] then
        (let cell1 = showVideo base (savedSrc state) cell
         in case savedTag state of
              None \<Rightarrow> (cell1, None)
            | Some tag \<Rightarrow> if tag \<noteq> [] then applyTag tm tag cell1 else (cell1, None))
      else (hideVideo cell, None))"

fun restoreFrom ::
  "string \<Rightarrow> tagManager \<Rightarrow> videoState list \<Rightarrow> nat \<Rightarrow> videoCell list
     \<Rightarrow> videoCell list \<times> jsError option" where
  "restoreFrom base tm [] index newCells = (newCells, None)"
| "restoreFrom base tm (state # states) index newCells =
     (if index < length newCells then
        (case restoreCell base tm state (newCells ! index) of
           (cell, Some e) \<Rightarrow> (newCells[index := cell], Some e)
         | (cell, None) \<Rightarrow> restoreFrom base tm states (index + 1) (newCells[index := cell]))
      else restoreFrom base tm states (index + 1) newCells)"

definition restoreVideoStates :: "videoState list \<Rightarrow> videoGrid \<Rightarrow> videoGrid \<times> jsError option" where
  "restoreVideoStates videoStates vg =
     (case restoreFrom (documentURL vg) (tagManager vg) videoStates 0 (gridCells vg) of
        (newCells, e) \<Rightarrow> (vg\<lparr>gridCells := newCells\<rparr>, e))"

text \<open>
  \<^verbatim>\<open>toggleLayout\<close> and \<^verbatim>\<open>toggleAspectRatio\<close> run the same statements after they
  have switched their setting: \<open>relayout\<close> takes the snapshot and the controller with
  the new setting. The filled cells are counted in the old grid; the grid is then
  rebuilt with fresh cells and the snapshot is written back by position.
\<close>

definition relayout :: "config \<Rightarrow> videoState list \<Rightarrow> videoGrid \<Rightarrow> videoGrid \<times> jsError option" where
  "relayout cfg videoStates vg =
     (let filledCells = length (filter (\<lambda>cell. \<not> isEmpty cell) (gridCells vg));
          layoutConfig = layoutConfigOf cfg vg;
          totalNeededCells = fullRows filledCells (columns layoutConfig);
          vg1 = initGrid cfg (updateGridClass cfg vg);
          vg2 = (case totalNeededCells of
                   None \<Rightarrow> vg1
                 | Some n \<Rightarrow>
                     if n > cells layoutConfig
                     then setupScrollHandler
                            ((extendGrid cfg (n - cells layoutConfig) vg1)\<lparr>isExtended := True\<rparr>)
                     else vg1)
      in restoreVideoStates videoStates vg2)"

definition toggleLayout :: "config \<Rightarrow> videoGrid \<Rightarrow> videoGrid \<times> jsError option" where
  "toggleLayout cfg vg =
     (let videoStates = saveVideoStates vg
      in relayout cfg videoStates
           (vg\<lparr>currentLayout := (if currentLayout vg = ''2x2'' then ''3x3'' else ''2x2'')\<rparr>))"

definition toggleAspectRatio :: "config \<Rightarrow> videoGrid \<Rightarrow> videoGrid \<times> jsError option" where
  "toggleAspectRatio cfg vg =
     (let videoStates = saveVideoStates vg
      in relayout cfg videoStates
           (vg\<lparr>currentAspectRatio := (if currentAspectRatio vg = ''16:9'' then ''9:16'' else ''16:9'')\<rparr>))"

subsection \<open>Swapping two cells by drag and drop\<close>

definition getCellState :: "videoCell \<Rightarrow> cellState" where
  "getCellState cell =
     \<lparr>stateSrc = src cell, stateCurrentTime = currentTime cell, stateIsPlaying = \<not> paused cell,
      stateIsEmpty = isEmpty cell, stateButtonDisplay = buttonDisplay cell,
      stateVideoDisplay = videoDisplay cell, stateContainerDisplay = containerDisplay cell\<rparr>"

definition applyCellState :: "string \<Rightarrow> cellState \<Rightarrow> videoCell \<Rightarrow> videoCell" where
  "applyCellState base state cell =
     (let cell1 = (setVideoSrc base (stateSrc state) cell)
                    \<lparr>currentTime := stateCurrentTime state,
                     videoDisplay := stateVideoDisplay state,
                     containerDisplay := stateContainerDisplay state,
                     buttonDisplay := stateButtonDisplay state\<rparr>
      in if stateIsEmpty state
         then cell1\<lparr>isEmpty := True, videoDisplay := ''none'', containerDisplay := ''none'',
                   buttonDisplay := ''flex''\<rparr>
         else (let cell2 = cell1\<lparr>isEmpty := False, videoDisplay := ''block'',
                                  containerDisplay := ''block'', buttonDisplay := ''none''\<rparr>
               in if stateIsPlaying state then cell2\<lparr>paused := False\<rparr> else cell2))"

definition dragstart :: "nat \<Rightarrow> videoGrid \<Rightarrow> videoGrid" where
  "dragstart cell vg =
     (if \<not> cell < length (gridCells vg) \<or> src (gridCells vg ! cell) = [] then vg
      else vg\<lparr>dragSource := Some cell,
              gridCells := updateCell cell (\<lambda>c. c\<lparr>dragging := True\<rparr>) (gridCells vg)\<rparr>)"

definition setBadgeText :: "string \<Rightarrow> videoCell \<Rightarrow> videoCell" where
  "setBadgeText t cell =
     (case tagBadge cell of
        None \<Rightarrow> cell
      | Some badge \<Rightarrow> cell\<lparr>tagBadge := Some (badge\<lparr>textContent := t\<rparr>)\<rparr>)"

text \<open>
  The \<^verbatim>\<open>drop\<close> listener of the grid. \<open>swapCells\<close> is its body once both cells are
  known: it returns the new source cell and the new target cell; \<open>base\<close> is the URL of
  the document.
\<close>

definition swapCells :: "string \<Rightarrow> videoCell \<Rightarrow> videoCell \<Rightarrow> videoCell \<times> videoCell" where
  "swapCells base source target =
     (let sourceTag = dataTag source;
          targetTag = dataTag target;
          sourceState = getCellState source;
          targetState = getCellState target;
          source1 = applyCellState base targetState source;
          target1 = applyCellState base sourceState target;
          target2 = (if truthy sourceTag then target1\<lparr>dataTag := sourceTag\<rparr> else target1);
          source2 = (if truthy targetTag then source1\<lparr>dataTag := targetTag\<rparr> else source1);
          (source3, target3) =
            (case (tagBadge source2, tagBadge target2) of
               (Some sourceTagDisplay, Some targetTagDisplay) \<Rightarrow>
                 (setBadgeText (textContent targetTagDisplay) source2,
                  setBadgeText (textContent sourceTagDisplay) target2)
             | _ \<Rightarrow> (source2, target2))
      in (source3\<lparr>dragging := False\<rparr>, target3\<lparr>dragover := False\<rparr>))"

definition dropEvent :: "nat \<Rightarrow> videoGrid \<Rightarrow> videoGrid" where
  "dropEvent targetCell vg =
     (case dragSource vg of
        None \<Rightarrow> vg
      | Some source \<Rightarrow>
          if \<not> targetCell < length (gridCells vg) \<or> \<not> source < length (gridCells vg)
             \<or> targetCell = source
          then vg
          else (case swapCells (documentURL vg) (gridCells vg ! source) (gridCells vg ! targetCell) of
                  (source', target') \<Rightarrow>
                    vg\<lparr>gridCells := (gridCells vg)[source := source', targetCell := target']\<rparr>))"

definition dragend :: "videoGrid \<Rightarrow> videoGrid" where
  "dragend vg =
     vg\<lparr>gridCells := map (\<lambda>c. c\<lparr>dragover := False\<rparr>)
            (case dragSource vg of
               None \<Rightarrow> gridCells vg
             | Some source \<Rightarrow> updateCell source (\<lambda>c. c\<lparr>dragging := False\<rparr>) (gridCells vg)),
        dragSource := None\<rparr>"

section \<open>Navbar.js\<close>

text \<open>
  The navbar carries the class \<^verbatim>\<open>hidden\<close> or not. \<open>timeout\<close> is the deadline of the
  pending timer whose id the variable \<^verbatim>\<open>timeout\<close> of \<^verbatim>\<open>setupAutoHide\<close> holds,
  \<open>initialTimer\<close> the deadline of the timer that \<^verbatim>\<open>setupAutoHide\<close> starts at its end
  and whose id is not kept; \<open>now\<close> is the time in milliseconds since the constructor
  ran. A timer fires when the clock reaches its deadline.
\<close>

record navbar =
  navHidden :: bool
  timeout :: "nat option"
  initialTimer :: "nat option"
  now :: nat

datatype navEvent = MouseMove int | Wait nat

definition Navbar :: "bool \<Rightarrow> navbar" where
  "Navbar hidden0 = \<lparr>navHidden = hidden0, timeout = None, initialTimer = Some 2000, now = 0\<rparr>"

definition mousemove :: "int \<Rightarrow> navbar \<Rightarrow> navbar" where
  "mousemove clientY nb =
     (if clientY < 100 then nb\<lparr>navHidden := False, timeout := None\<rparr>
      else nb\<lparr>timeout := Some (now nb + 2000)\<rparr>)"

definition fireTimers :: "nat \<Rightarrow> navbar \<Rightarrow> navbar" where
  "fireTimers t nb =
     (let nb1 = (case initialTimer nb of
                   None \<Rightarrow> nb
                 | Some d \<Rightarrow> if d \<le> t then nb\<lparr>navHidden := True, initialTimer := None\<rparr> else nb);
          nb2 = (case timeout nb1 of
                   None \<Rightarrow> nb1
                 | Some d \<Rightarrow> if d \<le> t then nb1\<lparr>navHidden := True, timeout := None\<rparr> else nb1)
      in nb2\<lparr>now := t\<rparr>)"

fun step :: "navEvent \<Rightarrow> navbar \<Rightarrow> navbar" where
  "step (MouseMove clientY) nb = mousemove clientY nb"
| "step (Wait d) nb = fireTimers (now nb + d) nb"

fun run :: "navEvent list \<Rightarrow> navbar \<Rightarrow> navbar" where
  "run [] nb = nb"
| "run (e # es) nb = run es (step e nb)"

text \<open>
  Where the pointer is, as far as the \<^verbatim>\<open>mousemove\<close> events tell: \<open>None\<close> while the
  last event was inside the zone at the top (\<^verbatim>\<open>clientY < 100\<close>), \<open>Some t\<close> when the
  pointer has been outside since time \<open>t\<close>. The first argument is the value before the
  events, the second the time at which they start.
\<close>

fun outsideSince :: "nat option \<Rightarrow> nat \<Rightarrow> navEvent list \<Rightarrow> nat option" where
  "outsideSince s t [] = s"
| "outsideSince s t (Wait d # es) = outsideSince s (t + d) es"
| "outsideSince s t (MouseMove clientY # es) =
     outsideSince (if clientY < 100 then None
                   else (case s of None \<Rightarrow> Some t | Some t0 \<Rightarrow> Some t0)) t es"

section \<open>Auxiliary predicates and sample states\<close>

text \<open>
  A tag is plain when it holds none of the characters that end or escape a CSS string.
\<close>

definition plainTag :: "string \<Rightarrow> bool" where
  "plainTag tag =
     (\<forall>c\<in>set tag. c \<notin> {doubleQuote, CHR 0x0A, CHR 0x0C, CHR 0x0D, CHR 0x5C, CHR 0x00})"

text \<open>
  The state of the navbar relative to the pointer, once the initial timer is gone: with
  the pointer inside the zone the navbar is shown and no hide is pending; with the pointer
  outside since \<open>t0\<close>, the navbar is hidden, or a hide is pending, no earlier than
  \<open>t0 + 2000\<close>.
\<close>

definition quiet :: "nat option \<Rightarrow> navbar \<Rightarrow> bool" where
  "quiet s nb =
     (initialTimer nb = None \<and>
      (case s of
         None \<Rightarrow> \<not> navHidden nb \<and> timeout nb = None
       | Some t0 \<Rightarrow> t0 \<le> now nb \<and> (navHidden nb \<longrightarrow> t0 + 2000 \<le> now nb)
                     \<and> (\<forall>d. timeout nb = Some d \<longrightarrow> t0 + 2000 \<le> d)))"

text \<open>
  A configuration with the two layouts, 2x2 with four cells in two columns and 3x3 with
  nine cells in three columns, and a fresh 2x2 grid.
\<close>

definition sampleConfig :: config where
  "sampleConfig =
     \<lparr>layouts = (\<lambda>layout aspect. if layout = ''3x3'' then \<lparr>cells = 9, columns = 3\<rparr>
                                   else \<lparr>cells = 4, columns = 2\<rparr>),
      aspectRatios = (\<lambda>ratio. if ratio = ''9:16'' then ''aspect-9-16'' else ''aspect-16-9''),
      supportedFormats = [''video/mp4'', ''video/webm'', ''video/ogg'']\<rparr>"

definition emptyRegistry :: tagManager where
  "emptyRegistry = \<lparr>tags = [], dropdown = [], dropdownHidden = True\<rparr>"

definition pageURL :: string where
  "pageURL = ''http://localhost/index.html''"

definition gridOf :: "tagManager \<Rightarrow> videoCell list \<Rightarrow> videoGrid" where
  "gridOf tm cs =
     \<lparr>documentURL = pageURL, currentLayout = ''2x2'', currentAspectRatio = ''16:9'',
      className = ''video-grid layout-2x2 aspect-16-9'', gridCells = cs,
      isPlaying = False, tagManager = tm, isExtended = False, overflowY = ''hidden'',
      dragSource = None, errorMessages = [], console = []\<rparr>"

definition grid2x2 :: videoGrid where
  "grid2x2 =
     gridOf emptyRegistry
       [createVideoCell 0, createVideoCell 1, createVideoCell 2, createVideoCell 3]"

definition mp4 :: "string \<Rightarrow> videoFile" where
  "mp4 path = \<lparr>fileType = ''video/mp4'', fileSize = 1000, blobPath = path\<rparr>"

definition fiveFiles :: "videoFile list" where
  "fiveFiles = [mp4 ''a'', mp4 ''b'', mp4 ''c'', mp4 ''d'', mp4 ''e'']"

text \<open>A tag with a double quote in it, registered and applied to the only cell.\<close>

definition quotedTag :: string where
  "quotedTag = ''a'' @ [doubleQuote] @ ''b''"

definition quotedPage :: "tagManager \<times> videoCell list" where
  "quotedPage =
     (let tm = snd (addTag 0 quotedTag emptyRegistry)
      in (tm, [fst (applyTag tm quotedTag (createVideoCell 0))]))"

text \<open>Two loaded cells, the first of them tagged.\<close>

definition loadedCell :: "nat \<Rightarrow> string \<Rightarrow> videoCell" where
  "loadedCell index url = showVideo pageURL url (createVideoCell index)"

definition oneTagGrid :: videoGrid where
  "oneTagGrid =
     (let tm = snd (addTag 0 ''a'' emptyRegistry)
      in gridOf tm [fst (applyTag tm ''a'' (loadedCell 0 ''blob:0'')), loadedCell 1 ''blob:1''])"

text \<open>
  Files of a batch: \<open>validFile\<close> passes every test of \<^verbatim>\<open>addVideoToCell\<close>;
  \<open>rejection\<close> is the message that the \<^verbatim>\<open>catch\<close> of \<^verbatim>\<open>addVideoToCell\<close> passes to
  \<^verbatim>\<open>showErrorMessage\<close> for a file, if any; \<open>handled\<close> holds unless the file reaches
  \<^verbatim>\<open>addVideoToCell\<close> and fails the whitelist test that stands before the \<^verbatim>\<open>try\<close>.
\<close>

definition validFile :: "config \<Rightarrow> videoFile \<Rightarrow> bool" where
  "validFile cfg f =
     (fileType f \<in> set safeVideoTypes \<and> fileType f \<in> set (supportedFormats cfg)
      \<and> fileSize f \<le> MAX_FILE_SIZE)"

definition rejection :: "config \<Rightarrow> videoFile \<Rightarrow> errorMessage list" where
  "rejection cfg f =
     (if fileType f \<notin> set safeVideoTypes then []
      else if fileType f \<notin> set (supportedFormats cfg) then [UnsupportedFormatOf (fileType f)]
      else if fileSize f > MAX_FILE_SIZE then [FileTooLarge]
      else [])"

definition handled :: "videoFile \<Rightarrow> bool" where
  "handled f = (fileType f \<in> set safeVideoTypes \<or> \<not> startsWith (fileType f) ''video/'')"

text \<open>
  Where the files of a batch go. \<open>slot files p\<close> counts the files before position
  \<open>p\<close> that pass the \<^verbatim>\<open>startsWith('video/')\<close> guard: each of them takes one empty
  cell, loaded or not. \<open>grown\<close> is the grid when the loop starts, extended by
  \<^verbatim>\<open>extendGrid(files.length)\<close> if the test of \<^verbatim>\<open>addMultipleVideos\<close> says so, and
  \<open>cellFor p\<close> is the cell that the loop offers to the file at position \<open>p\<close>: the empty
  cell of that grid at the position of the start cell plus the slot.
\<close>

definition slot :: "videoFile list \<Rightarrow> nat \<Rightarrow> nat" where
  "slot files p = length (filter (\<lambda>f. startsWith (fileType f) ''video/'') (take p files))"

definition grown :: "config \<Rightarrow> videoFile list \<Rightarrow> nat \<Rightarrow> videoGrid \<Rightarrow> videoGrid" where
  "grown cfg files startCell vg =
     (if int (length (emptyCellsOf (gridCells vg)))
           < indexOf (emptyCellsOf (gridCells vg)) startCell + int (length files)
      then extendGrid cfg (length files) vg else vg)"

definition cellFor :: "config \<Rightarrow> videoFile list \<Rightarrow> nat \<Rightarrow> videoGrid \<Rightarrow> nat \<Rightarrow> nat" where
  "cellFor cfg files startCell vg p =
     emptyCellsOf (gridCells (grown cfg files startCell vg))
       ! (nat (indexOf (emptyCellsOf (gridCells vg)) startCell) + slot files p)"

text \<open>
  \<open>batchPost\<close> is what the loop of \<^verbatim>\<open>addMultipleVideos\<close> establishes from the running
  index \<open>idx\<close> into the empty cells \<open>E\<close>: no error, the messages of the rejected
  files, every valid file shown in its cell, and every other cell as it was.
\<close>

definition batchPost ::
  "config \<Rightarrow> nat list \<Rightarrow> videoFile list \<Rightarrow> int \<Rightarrow> videoGrid \<Rightarrow> videoGrid \<times> jsError option \<Rightarrow> bool" where
  "batchPost cfg E fs idx vg res =
     (snd res = None
      \<and> length (gridCells (fst res)) = length (gridCells vg)
      \<and> documentURL (fst res) = documentURL vg
      \<and> errorMessages (fst res) = errorMessages vg @ concat (map (rejection cfg) fs)
      \<and> (\<forall>p<length fs. validFile cfg (fs ! p) \<longrightarrow>
            gridCells (fst res) ! (E ! (nat idx + slot fs p))
              = showVideo (documentURL vg) (createObjectURL (fs ! p))
                  (gridCells vg ! (E ! (nat idx + slot fs p))))
      \<and> (\<forall>j<length (gridCells vg).
            (\<forall>p<length fs. validFile cfg (fs ! p) \<longrightarrow> E ! (nat idx + slot fs p) \<noteq> j) \<longrightarrow>
            gridCells (fst res) ! j = gridCells vg ! j))"

text \<open>
  Sample files: a text file, a video over the size limit, a video of a type outside the
  whitelist; a configuration whose layouts have no column; and a 2x2 grid whose first
  cell is loaded.
\<close>

definition textFile :: videoFile where
  "textFile = \<lparr>fileType = ''text/plain'', fileSize = 10, blobPath = ''t''\<rparr>"

definition bigFile :: videoFile where
  "bigFile = \<lparr>fileType = ''video/mp4'', fileSize = 200 * 1024 * 1024, blobPath = ''big''\<rparr>"

definition aviFile :: videoFile where
  "aviFile = \<lparr>fileType = ''video/avi'', fileSize = 10, blobPath = ''avi''\<rparr>"

definition noColumnConfig :: config where
  "noColumnConfig = sampleConfig\<lparr>layouts := (\<lambda>layout aspect. \<lparr>cells = 4, columns = 0\<rparr>)\<rparr>"

definition firstLoadedGrid :: videoGrid where
  "firstLoadedGrid =
     gridOf emptyRegistry
       [loadedCell 0 ''blob:0'', createVideoCell 1, createVideoCell 2, createVideoCell 3]"

text \<open>
  A 2x2 grid whose first cell holds a tagged video that plays at position 5000 ms, and
  a 3x3 grid whose only video is in the last cell.
\<close>

definition playingGrid :: videoGrid where
  "playingGrid =
     (let tm = snd (addTag 0 ''a'' emptyRegistry)
      in gridOf tm
           [(fst (applyTag tm ''a'' (loadedCell 0 ''blob:0'')))\<lparr>currentTime := 5000, paused := False\<rparr>,
            createVideoCell 1, createVideoCell 2, createVideoCell 3])"

definition sparseGrid :: videoGrid where
  "sparseGrid =
     (gridOf emptyRegistry (map createVideoCell [0..<8] @ [loadedCell 8 ''blob:8'']))
       \<lparr>currentLayout := ''3x3'', className := ''video-grid layout-3x3 aspect-16-9''\<rparr>"

section \<open>Properties of the tag registry\<close>

lemma mapHas_mapGet: "mapHas m k \<longleftrightarrow> mapGet m k \<noteq> None"
  by (induction m) (auto split: if_splits)

lemma mapGet_mapSet: "mapGet (mapSet m k v) k' = (if k' = k then Some v else mapGet m k')"
  by (induction m) auto

lemma mapHas_mapSet: "mapHas (mapSet m k v) k"
  by (induction m) auto

lemma mapGet_mapDelete_other: "k' \<noteq> k \<Longrightarrow> mapGet (mapDelete m k) k' = mapGet m k'"
  by (induction m) auto

lemma mapGet_mapDelete_same: "distinct (map fst m) \<Longrightarrow> mapGet (mapDelete m k) k = None"
proof (induction m)
  case Nil
  then show ?case by simp
next
  case (Cons p m)
  obtain k' v where p: "p = (k', v)" by (cases p)
  show ?case
  proof (cases "k' = k")
    case True
    with Cons.prems p have "k \<notin> fst ` set m" by simp
    then have "mapGet m k = None" by (induction m) auto
    with True p show ?thesis by simp
  next
    case False
    with Cons p show ?thesis by simp
  qed
qed

lemma tags_updateDropdown: "tags (updateDropdown tm) = tags tm"
  by (simp add: updateDropdown_def)

lemma mapSet_absent: "\<not> mapHas m k \<Longrightarrow> mapSet m k v = m @ [(k, v)]"
  by (induction m) (auto split: if_splits)

lemma showNat_0: "showNat 0 = ''0''"
  by (simp add: showNat.simps digits_def)

lemma showNat_180: "showNat 180 = ''180''"
  by (simp add: showNat.simps digits_def)

lemma showNat_271: "showNat 271 = ''271''"
  by (simp add: showNat.simps digits_def)

lemma showNat_359: "showNat 359 = ''359''"
  by (simp add: showNat.simps digits_def)

subsection \<open>The double product of generatePastelColor\<close>

lemma nearestEven_int: "nearestEven (of_int n) = n"
  by (simp add: nearestEven_def)

lemma nearestEven_up:
  assumes "of_int n + 1 / 2 < q" and "q < of_int n + 1"
  shows "nearestEven q = n + 1"
proof -
  have fl: "\<lfloor>q\<rfloor> = n" by (rule floor_unique) (use assms in linarith)+
  have "\<not> q - of_int n < 1 / 2" and "1 / 2 < q - of_int n" using assms(1) by linarith+
  then show ?thesis by (simp add: nearestEven_def fl)
qed

lemma nearestEven_down:
  assumes "of_int n \<le> q" and "q < of_int n + 1 / 2"
  shows "nearestEven q = n"
proof -
  have fl: "\<lfloor>q\<rfloor> = n" by (rule floor_unique) (use assms in linarith)+
  have "q - of_int n < 1 / 2" using assms(2) by linarith
  then show ?thesis by (simp add: nearestEven_def fl)
qed

lemma pow2_pos: "0 < pow2 e"
  by (simp add: pow2_def)

lemma roundDouble_exact:
  assumes "0 < x" and "binade 8 x = e" and "x / pow2 (e - 52) = of_int n"
  shows "roundDouble x = x"
proof -
  have "of_int n * pow2 (e - 52) = x"
    using assms(3) pow2_pos [of "e - 52"] by (simp add: field_simps)
  with assms(1) show ?thesis
    by (simp add: roundDouble_def Let_def assms(2,3) nearestEven_int)
qed

lemma roundDouble_up:
  assumes "0 < x" and "binade 8 x = e"
    and "of_int n + 1 / 2 < x / pow2 (e - 52)" and "x / pow2 (e - 52) < of_int n + 1"
  shows "roundDouble x = of_int (n + 1) * pow2 (e - 52)"
  using assms(1) by (simp add: roundDouble_def Let_def assms(2) nearestEven_up [OF assms(3,4)])

lemma roundDouble_down:
  assumes "0 < x" and "binade 8 x = e"
    and "of_int n \<le> x / pow2 (e - 52)" and "x / pow2 (e - 52) < of_int n + 1 / 2"
  shows "roundDouble x = of_int n * pow2 (e - 52)"
  using assms(1) by (simp add: roundDouble_def Let_def assms(2) nearestEven_down [OF assms(3,4)])

lemma roundDouble_0: "roundDouble 0 = 0"
  by (simp add: roundDouble_def)

lemma binade_180: "binade 8 180 = 7"
  by (simp add: binade.simps pow2_def)

lemma roundDouble_180: "roundDouble 180 = 180"
  by (rule roundDouble_exact [OF _ binade_180, where n = "180 * 2 ^ 45"]) (simp_all add: pow2_def)

text \<open>
  The product is not the exact one. For the double \<open>r = 1695104859746395 / 2 ^ 51\<close> the
  exact product \<open>360 r\<close> lies below 271, within half a unit in the last place of it,
  and the double product is 271: the hue is 271, not the integer part 270 of \<open>360 r\<close>.
\<close>

lemma binade_271: "binade 8 (76279718688587775 / 281474976710656) = 8"
  by (simp add: binade.simps pow2_def)

lemma roundDouble_271: "roundDouble (1695104859746395 / 2 ^ 51 * 360) = 271"
proof -
  have "roundDouble (76279718688587775 / 281474976710656)
          = of_int (271 * 2 ^ 44 - 1 + 1) * pow2 (8 - 52)"
    by (rule roundDouble_up [OF _ binade_271]) (simp_all add: pow2_def)
  then show ?thesis by (simp add: pow2_def)
qed

lemma generatePastelColor_double_product:
  "\<lfloor>1695104859746395 / 2 ^ 51 * 360 :: rat\<rfloor> = 270
   \<and> generatePastelColor (1695104859746395 / 2 ^ 51) = ''hsl(271, 70%, 80%)''"
proof -
  have "\<lfloor>1695104859746395 / 2 ^ 51 * 360 :: rat\<rfloor> = 270"
    by (rule floor_unique) simp_all
  moreover have "generatePastelColor (1695104859746395 / 2 ^ 51) = ''hsl(271, 70%, 80%)''"
    unfolding generatePastelColor_def Let_def roundDouble_271 by (simp add: showNat_271)
  ultimately show ?thesis by simp
qed

text \<open>
  For the largest double below 1 the double product is the largest double below 360, and
  the hue is 359.
\<close>

lemma binade_359: "binade 8 (405323966463344595 / 1125899906842624) = 8"
  by (simp add: binade.simps pow2_def)

lemma roundDouble_359:
  "roundDouble ((2 ^ 53 - 1) / 2 ^ 53 * 360) = 360 - 1 / 2 ^ 44"
proof -
  have "roundDouble (405323966463344595 / 1125899906842624)
          = of_int (45 * 2 ^ 47 - 1) * pow2 (8 - 52)"
    by (rule roundDouble_down [OF _ binade_359]) (simp_all add: pow2_def)
  then show ?thesis by (simp add: pow2_def)
qed

lemma generatePastelColor_largest:
  "generatePastelColor ((2 ^ 53 - 1) / 2 ^ 53) = ''hsl(359, 70%, 80%)''"
proof -
  have "\<lfloor>360 - 1 / 2 ^ 44 :: rat\<rfloor> = 359"
    by (rule floor_unique) simp_all
  then show ?thesis
    unfolding generatePastelColor_def Let_def roundDouble_359 by (simp add: showNat_359)
qed

subsection \<open>addTag and filterVideos\<close>

text \<open>
  Claim C6. \<^verbatim>\<open>addTag\<close> is create-or-get and idempotent. For a name that is already
  registered the call returns the stored colour and leaves the registry, dropdown
  included, as it was. For a new name it returns the colour that
  \<^verbatim>\<open>generatePastelColor\<close> makes from the number \<open>r\<close> of \<^verbatim>\<open>Math.random\<close>, appends the
  name with that colour to the registry and rebuilds the dropdown from it. Either way the
  name is registered afterwards with the returned colour, every other name keeps its
  colour, and a second call with the same name, whatever \<^verbatim>\<open>Math.random\<close> would return
  then, gives the colour and the registry of the first call.
\<close>

theorem addTag_create_or_get:
  "addTag r' t (snd (addTag r t tm)) = addTag r t tm
   \<and> (mapHas (tags tm) t \<longrightarrow> (\<exists>c. mapGet (tags tm) t = Some c \<and> addTag r t tm = (Some c, tm)))
   \<and> (\<not> mapHas (tags tm) t \<longrightarrow>
        addTag r t tm
          = (Some (generatePastelColor r),
             updateDropdown (tm\<lparr>tags := tags tm @ [(t, generatePastelColor r)]\<rparr>)))
   \<and> mapHas (tags (snd (addTag r t tm))) t
   \<and> mapGet (tags (snd (addTag r t tm))) t = fst (addTag r t tm)
   \<and> (\<forall>k. k \<noteq> t \<longrightarrow> mapGet (tags (snd (addTag r t tm))) k = mapGet (tags tm) k)"
proof -
  have idem: "addTag r' t (snd (addTag r t tm)) = addTag r t tm"
    by (simp add: addTag_def Let_def tags_updateDropdown mapHas_mapSet)
  have get: "mapHas (tags tm) t \<longrightarrow> (\<exists>c. mapGet (tags tm) t = Some c \<and> addTag r t tm = (Some c, tm))"
    by (auto simp: addTag_def Let_def mapHas_mapGet)
  have "mapGet (mapSet (tags tm) t c) t = Some c" for c
    by (simp add: mapGet_mapSet)
  then have create: "\<not> mapHas (tags tm) t \<longrightarrow>
        addTag r t tm
          = (Some (generatePastelColor r),
             updateDropdown (tm\<lparr>tags := tags tm @ [(t, generatePastelColor r)]\<rparr>))"
    by (auto simp: addTag_def Let_def tags_updateDropdown mapSet_absent [symmetric])
  have has: "mapHas (tags (snd (addTag r t tm))) t"
    by (simp add: addTag_def Let_def tags_updateDropdown mapHas_mapSet)
  have same: "mapGet (tags (snd (addTag r t tm))) t = fst (addTag r t tm)"
    by (simp add: addTag_def Let_def)
  have other: "\<forall>k. k \<noteq> t \<longrightarrow> mapGet (tags (snd (addTag r t tm))) k = mapGet (tags tm) k"
    by (simp add: addTag_def Let_def tags_updateDropdown mapGet_mapSet)
  from idem get create has same other show ?thesis by blast
qed

theorem addTag_create_or_get_witness:
  "addTag 0 ''a'' emptyRegistry
     = (Some (generatePastelColor 0),
        updateDropdown (emptyRegistry\<lparr>tags := [(''a'', generatePastelColor 0)]\<rparr>))
   \<and> addTag (1 / 2) ''a'' (snd (addTag 0 ''a'' emptyRegistry)) = addTag 0 ''a'' emptyRegistry
   \<and> mapHas (tags (snd (addTag 0 ''a'' emptyRegistry))) ''a''
   \<and> (\<exists>c. mapGet (tags (snd (addTag 0 ''a'' emptyRegistry))) ''a'' = Some c
          \<and> addTag (1 / 2) ''a'' (snd (addTag 0 ''a'' emptyRegistry))
              = (Some c, snd (addTag 0 ''a'' emptyRegistry)))"
proof -
  have new: "\<not> mapHas (tags emptyRegistry) ''a''" and e: "tags emptyRegistry = []"
    by (simp_all add: emptyRegistry_def)
  note fresh = addTag_create_or_get [of "1 / 2" "''a''" 0 emptyRegistry]
  from fresh new have "addTag 0 ''a'' emptyRegistry
          = (Some (generatePastelColor 0),
             updateDropdown
               (emptyRegistry\<lparr>tags := tags emptyRegistry @ [(''a'', generatePastelColor 0)]\<rparr>))"
    by blast
  then have first: "addTag 0 ''a'' emptyRegistry
          = (Some (generatePastelColor 0),
             updateDropdown (emptyRegistry\<lparr>tags := [(''a'', generatePastelColor 0)]\<rparr>))"
    unfolding e by simp
  from fresh
  have idem: "addTag (1 / 2) ''a'' (snd (addTag 0 ''a'' emptyRegistry)) = addTag 0 ''a'' emptyRegistry"
    by (rule conjunct1)
  from fresh have has: "mapHas (tags (snd (addTag 0 ''a'' emptyRegistry))) ''a''"
    by blast
  from addTag_create_or_get [of "1 / 2" "''a''" "1 / 2" "snd (addTag 0 ''a'' emptyRegistry)"] has
  have "\<exists>c. mapGet (tags (snd (addTag 0 ''a'' emptyRegistry))) ''a'' = Some c
          \<and> addTag (1 / 2) ''a'' (snd (addTag 0 ''a'' emptyRegistry))
              = (Some c, snd (addTag 0 ''a'' emptyRegistry))"
    by blast
  with first idem has show ?thesis by blast
qed

text \<open>
  Claim C7. After \<^verbatim>\<open>filterVideos(t)\<close> a cell is visible exactly when \<open>t\<close> is
  \<^verbatim>\<open>'all'\<close> or the cell's \<^verbatim>\<open>data-tag\<close> equals \<open>t\<close>; with \<^verbatim>\<open>'all'\<close> every cell is
  visible.
\<close>

theorem filterVideos_visible:
  "map visible (filterVideos t cs) = map (\<lambda>cell. t = ''all'' \<or> dataTag cell = Some t) cs
   \<and> map visible (filterVideos ''all'' cs) = replicate (length cs) True"
  by (induction cs) (auto simp: filterVideos_def visible_def)

text \<open>
  Claim C9, as amended. The colour that \<^verbatim>\<open>addTag(t)\<close> returns is a function of the tag
  name, the registry and the number \<open>r\<close> that \<^verbatim>\<open>Math.random()\<close> returns: the stored
  colour when \<open>t\<close> is registered, whatever \<open>r\<close> is, and otherwise
  \<^verbatim>\<open>hsl(h, 70%, 80%)\<close> with \<open>h\<close> the integer part of the double product of \<open>r\<close> and
  360, that is, of \<open>360 r\<close> rounded to the nearest double.
\<close>

theorem addTag_color:
  "fst (addTag r t tm) =
     (if mapHas (tags tm) t then mapGet (tags tm) t
      else Some (''hsl('' @ showNat (nat \<lfloor>roundDouble (r * 360)\<rfloor>) @ '', 70%, 80%)''))"
  by (simp add: addTag_def Let_def tags_updateDropdown mapGet_mapSet generatePastelColor_def)

text \<open>
  The claim as stated fails: from the same empty registry, the same name gets the hue 0
  when \<^verbatim>\<open>Math.random()\<close> returns 0 and the hue 180 when it returns one half.
\<close>

theorem addTag_random_counterexample:
  "fst (addTag 0 ''a'' emptyRegistry) = Some ''hsl(0, 70%, 80%)''
   \<and> fst (addTag (1 / 2) ''a'' emptyRegistry) = Some ''hsl(180, 70%, 80%)''"
  by (simp add: addTag_def emptyRegistry_def updateDropdown_def generatePastelColor_def
      roundDouble_0 roundDouble_180 showNat_0 showNat_180)

text \<open>
  Claim C10. The click listener of a dropdown option calls \<^verbatim>\<open>this.filterByTag\<close>, which
  TagManager does not define: for every tag the listener throws a TypeError and leaves
  the registry and every cell, so every cell's visibility, as they were. A call of
  \<^verbatim>\<open>filterVideos\<close> itself does set the visibility.
\<close>

theorem dropdownOptionClick_throws:
  "dropdownOptionClick tagName st = (st, Threw (TypeError ''this.filterByTag is not a function''))
   \<and> map visible (snd (fst (callMethod ''filterVideos'' tagName st)))
       = map (\<lambda>cell. tagName = ''all'' \<or> dataTag cell = Some tagName) (snd st)"
  by (simp add: dropdownOptionClick_def callMethod_def tagManagerMethods_def filterVideos_def
      visible_def comp_def)

subsection \<open>deleteTag\<close>

lemma cssString_plain:
  "plainTag tag \<Longrightarrow> cssString val (tag @ [doubleQuote] @ '']'') = Selects (val @ tag)"
  by (induction tag arbitrary: val) (auto simp: plainTag_def afterString_def)

lemma readSelector_plain: "plainTag tag \<Longrightarrow> readSelector tag = Selects tag"
  using cssString_plain [of tag "[]"] by (simp add: readSelector_def)

text \<open>
  For a plain tag \<^verbatim>\<open>deleteTag\<close> returns, the registry loses the tag and keeps every
  other entry, the cells that carry the tag lose the attribute and the badge, and every
  other cell is left as it was.
\<close>

lemma deleteTag_plain:
  "plainTag tag \<Longrightarrow>
   deleteTag tag (tm, cs) =
     ((updateDropdown (tm\<lparr>tags := mapDelete (tags tm) tag\<rparr>),
       map (\<lambda>cell. if dataTag cell = Some tag then stripTag cell else cell) cs), Returned)"
  by (simp add: deleteTag_def readSelector_plain)

lemma readSelector_quoted: "readSelector quotedTag = Rejects"
  by (simp add: readSelector_def quotedTag_def doubleQuote_def afterString_def isAsciiLetter_def)

text \<open>
  Claim C5 at a tag that holds a double quote. The tag is registered and applied to a
  cell through \<^verbatim>\<open>addTag\<close> and \<^verbatim>\<open>applyTag\<close>. \<^verbatim>\<open>deleteTag\<close> then removes the tag from
  the registry, but the selector built from the tag is rejected with a SyntaxError, and
  the cell keeps its attribute.
\<close>

theorem deleteTag_quoted:
  "map dataTag (snd quotedPage) = [Some quotedTag]
   \<and> snd (deleteTag quotedTag quotedPage) = Threw (SyntaxError (tagSelector quotedTag))
   \<and> map dataTag (snd (fst (deleteTag quotedTag quotedPage))) = [Some quotedTag]
   \<and> tags (fst (fst (deleteTag quotedTag quotedPage))) = []"
  by (simp add: deleteTag_def readSelector_quoted quotedPage_def addTag_def emptyRegistry_def
      updateDropdown_def applyTag_def createVideoCell_def addTagToCell_def Let_def)

section \<open>Swapping cells\<close>

text \<open>
  What the drop does to the two cells: position and empty flag are exchanged, and so are
  the sources, except that a cell that gets the empty source reads the URL of the
  document afterwards; a cell plays afterwards exactly when the other one was loaded and
  playing; a tag is written to the other cell only when it is there, and no tag is ever
  removed.
\<close>

lemma applyCellState_fields:
  "src (applyCellState b st c) = (if stateSrc st = [] then b else stateSrc st)"
  "currentTime (applyCellState b st c) = stateCurrentTime st"
  "isEmpty (applyCellState b st c) = stateIsEmpty st"
  "paused (applyCellState b st c) = (stateIsEmpty st \<or> \<not> stateIsPlaying st)"
  "dataTag (applyCellState b st c) = dataTag c"
  "tagBadge (applyCellState b st c) = tagBadge c"
  by (simp_all add: applyCellState_def setVideoSrc_def Let_def)

lemma setBadgeText_fields:
  "src (setBadgeText t c) = src c"
  "currentTime (setBadgeText t c) = currentTime c"
  "isEmpty (setBadgeText t c) = isEmpty c"
  "paused (setBadgeText t c) = paused c"
  "dataTag (setBadgeText t c) = dataTag c"
  by (simp_all add: setBadgeText_def split: option.splits)

lemma applyCellState_dataTag_upd:
  "(applyCellState b st c)\<lparr>dataTag := dataTag c\<rparr> = applyCellState b st c"
  using applyCellState_fields(5) [of b st c] by (metis videoCell.surjective videoCell.update_convs(5))

lemma swapCells_unfold:
  "swapCells b source target =
     (let source2 = (applyCellState b (getCellState target) source)
                      \<lparr>dataTag := (if truthy (dataTag target) then dataTag target else dataTag source)\<rparr>;
          target2 = (applyCellState b (getCellState source) target)
                      \<lparr>dataTag := (if truthy (dataTag source) then dataTag source else dataTag target)\<rparr>
      in case (tagBadge source, tagBadge target) of
           (Some sb, Some tb) \<Rightarrow>
             ((setBadgeText (textContent tb) source2)\<lparr>dragging := False\<rparr>,
              (setBadgeText (textContent sb) target2)\<lparr>dragover := False\<rparr>)
         | _ \<Rightarrow> (source2\<lparr>dragging := False\<rparr>, target2\<lparr>dragover := False\<rparr>))"
  by (simp add: swapCells_def Let_def applyCellState_fields applyCellState_dataTag_upd
      split: option.splits)

lemma swapCells_state:
  "swapCells b source target = (source', target') \<Longrightarrow>
     src source' = (if src target = [] then b else src target)
     \<and> src target' = (if src source = [] then b else src source)
     \<and> currentTime source' = currentTime target \<and> currentTime target' = currentTime source
     \<and> isEmpty source' = isEmpty target \<and> isEmpty target' = isEmpty source"
  unfolding swapCells_unfold Let_def
  by (cases "tagBadge source"; cases "tagBadge target")
     (auto simp: applyCellState_fields setBadgeText_fields getCellState_def)

lemma swapCells_paused:
  "swapCells b source target = (source', target') \<Longrightarrow>
     paused source' = (isEmpty target \<or> paused target)
     \<and> paused target' = (isEmpty source \<or> paused source)"
  unfolding swapCells_unfold Let_def
  by (cases "tagBadge source"; cases "tagBadge target")
     (auto simp: applyCellState_fields setBadgeText_fields getCellState_def)

lemma swapCells_dataTag:
  "swapCells b source target = (source', target') \<Longrightarrow>
     dataTag target' = (if truthy (dataTag source) then dataTag source else dataTag target)
     \<and> dataTag source' = (if truthy (dataTag target) then dataTag target else dataTag source)"
  unfolding swapCells_unfold Let_def
  by (cases "tagBadge source"; cases "tagBadge target")
     (auto simp: applyCellState_fields setBadgeText_fields getCellState_def)

lemma oneTagGrid_cells:
  "gridCells oneTagGrid = [(loadedCell 0 ''blob:0'')\<lparr>dataTag := Some ''a'',
       tagBadge := Some \<lparr>textContent = ''a'', backgroundColor = ''hsl(0, 70%, 80%)'', addMode = False\<rparr>\<rparr>,
     loadedCell 1 ''blob:1'']"
  "dragSource oneTagGrid = None"
  "documentURL oneTagGrid = pageURL"
  by (simp_all add: oneTagGrid_def gridOf_def applyTag_def addTag_def emptyRegistry_def
      updateDropdown_def generatePastelColor_def roundDouble_0 showNat_0 Let_def loadedCell_def
      showVideo_def setVideoSrc_def createVideoCell_def addTagToCell_def)

text \<open>
  Claim C3 at a grid of two loaded cells of which only the first is tagged. The first
  cell is dragged onto the second. The sources are exchanged and the second cell gets the
  tag, but the first cell keeps it: both cells end tagged.
\<close>

theorem drop_one_tag:
  "map dataTag (gridCells oneTagGrid) = [Some ''a'', None]
   \<and> map dataTag (gridCells (dropEvent 1 (dragstart 0 oneTagGrid))) = [Some ''a'', Some ''a'']
   \<and> map src (gridCells (dropEvent 1 (dragstart 0 oneTagGrid))) = [''blob:1'', ''blob:0'']"
proof -
  obtain s' t' where sw: "swapCells pageURL ((gridCells oneTagGrid ! 0)\<lparr>dragging := True\<rparr>) (gridCells oneTagGrid ! 1) = (s', t')"
    by (cases "swapCells pageURL ((gridCells oneTagGrid ! 0)\<lparr>dragging := True\<rparr>) (gridCells oneTagGrid ! 1)")
  have c0: "dataTag (gridCells oneTagGrid ! 0) = Some ''a''" "src (gridCells oneTagGrid ! 0) = ''blob:0''"
    and c1: "dataTag (gridCells oneTagGrid ! 1) = None" "src (gridCells oneTagGrid ! 1) = ''blob:1''"
    by (simp_all add: oneTagGrid_cells loadedCell_def showVideo_def setVideoSrc_def
        createVideoCell_def addTagToCell_def)
  have len: "length (gridCells oneTagGrid) = 2" by (simp add: oneTagGrid_cells)
  have d: "gridCells (dropEvent 1 (dragstart 0 oneTagGrid)) = [s', t']"
    using sw len c0(2) by (simp add: dropEvent_def dragstart_def updateCell_def oneTagGrid_cells)
  from swapCells_dataTag [OF sw] swapCells_state [OF sw] c0 c1 d
  show ?thesis by (simp add: oneTagGrid_cells truthy_def)
qed

text \<open>
  The drop above is a real one: the drag started on a loaded cell and the target is
  another cell of the grid.
\<close>

theorem drop_one_tag_witness:
  "dragSource (dragstart 0 oneTagGrid) = Some 0
   \<and> 1 < length (gridCells (dragstart 0 oneTagGrid))
   \<and> map dataTag (gridCells (dropEvent 1 (dragstart 0 oneTagGrid))) = [Some ''a'', Some ''a'']"
  using drop_one_tag
  by (simp add: dragstart_def oneTagGrid_cells updateCell_def loadedCell_def showVideo_def
      setVideoSrc_def)


section \<open>The navbar\<close>

lemma quiet_run: "quiet s nb \<Longrightarrow> quiet (outsideSince s (now nb) evs) (run evs nb)"
proof (induction evs arbitrary: s nb)
  case Nil
  then show ?case by simp
next
  case (Cons e evs)
  show ?case
  proof (cases e)
    case (MouseMove y)
    let ?s = "if y < 100 then None else (case s of None \<Rightarrow> Some (now nb) | Some t1 \<Rightarrow> Some t1)"
    have "quiet ?s (mousemove y nb)"
      using Cons.prems by (auto simp: quiet_def mousemove_def split: option.splits)
    moreover have "now (mousemove y nb) = now nb"
      by (simp add: mousemove_def)
    ultimately show ?thesis
      using Cons.IH [of ?s "mousemove y nb"] MouseMove by simp
  next
    case (Wait d)
    have "quiet s (fireTimers (now nb + d) nb)"
      using Cons.prems by (auto simp: quiet_def fireTimers_def Let_def split: option.splits)
    moreover have "now (fireTimers (now nb + d) nb) = now nb + d"
      by (simp add: fireTimers_def Let_def)
    ultimately show ?thesis
      using Cons.IH [of s "fireTimers (now nb + d) nb"] Wait by simp
  qed
qed

lemma initialTimer_run:
  "initialTimer nb = None \<or> (initialTimer nb = Some 2000 \<and> now nb < 2000) \<Longrightarrow>
   initialTimer (run evs nb) = None
   \<or> (initialTimer (run evs nb) = Some 2000 \<and> now (run evs nb) < 2000)"
proof (induction evs arbitrary: nb)
  case Nil
  then show ?case by simp
next
  case (Cons e evs)
  have "initialTimer (step e nb) = None
        \<or> (initialTimer (step e nb) = Some 2000 \<and> now (step e nb) < 2000)"
    using Cons.prems
    by (cases e) (auto simp: mousemove_def fireTimers_def Let_def split: option.splits)
  from Cons.IH [OF this] show ?case by simp
qed

lemma run_append: "run (xs @ ys) nb = run ys (run xs nb)"
  by (induction xs arbitrary: nb) auto

text \<open>
  Claim C8, as amended. Take any history \<open>pre\<close> that lasts at least the 2000 ms after
  which the initial timer of \<^verbatim>\<open>setupAutoHide\<close> fires, then a \<^verbatim>\<open>mousemove\<close> inside the
  zone (\<^verbatim>\<open>clientY < 100\<close>), then any events \<open>evs\<close>. If the navbar is hidden at the end,
  the pointer has been reported outside the zone since some time \<open>t0\<close> and at least
  2000 ms have passed since \<open>t0\<close>. So after that move the navbar is never hidden while
  the pointer is inside the zone, nor sooner than 2000 ms after the pointer left it.
\<close>

theorem navbar_hidden_only_after_delay:
  assumes "2000 \<le> now (run pre (Navbar h))" and "clientY < 100"
    and "navHidden (run (pre @ MouseMove clientY # evs) (Navbar h))"
  shows "\<exists>t0. outsideSince None (now (run pre (Navbar h))) evs = Some t0
              \<and> t0 + 2000 \<le> now (run (pre @ MouseMove clientY # evs) (Navbar h))"
proof -
  let ?nb = "run pre (Navbar h)"
  have "initialTimer ?nb = None \<or> (initialTimer ?nb = Some 2000 \<and> now ?nb < 2000)"
    by (rule initialTimer_run) (simp add: Navbar_def)
  with assms(1) have init: "initialTimer ?nb = None" by auto
  let ?nb1 = "mousemove clientY ?nb"
  have q: "quiet None ?nb1" and n: "now ?nb1 = now ?nb"
    using init assms(2) by (simp_all add: quiet_def mousemove_def)
  have r: "run (pre @ MouseMove clientY # evs) (Navbar h) = run evs ?nb1"
    by (simp add: run_append)
  from quiet_run [OF q, of evs] have "quiet (outsideSince None (now ?nb) evs) (run evs ?nb1)"
    by (simp add: n)
  with assms(3) r show ?thesis
    by (auto simp: quiet_def split: option.splits)
qed

theorem navbar_hidden_only_after_delay_witness:
  "2000 \<le> now (run [Wait 2000] (Navbar False)) \<and> (50::int) < 100
   \<and> navHidden (run ([Wait 2000] @ MouseMove 50 # [Wait 500, MouseMove 150, Wait 2000])
                   (Navbar False))
   \<and> (\<exists>t0. outsideSince None (now (run [Wait 2000] (Navbar False)))
               [Wait 500, MouseMove 150, Wait 2000] = Some t0
          \<and> t0 + 2000 \<le> now (run ([Wait 2000] @ MouseMove 50 # [Wait 500, MouseMove 150, Wait 2000])
                               (Navbar False)))"
proof -
  have a: "2000 \<le> now (run [Wait 2000] (Navbar False))"
    by (simp add: Navbar_def fireTimers_def)
  have b: "(50::int) < 100" by simp
  have c: "navHidden (run ([Wait 2000] @ MouseMove 50 # [Wait 500, MouseMove 150, Wait 2000])
                        (Navbar False))"
    by (simp add: Navbar_def fireTimers_def mousemove_def)
  from navbar_hidden_only_after_delay [OF a b c] a b c show ?thesis by blast
qed

text \<open>
  The claim as stated fails. The pointer enters the zone one second after the start and
  stays there: the initial timer hides the navbar at 2000 ms all the same. And when the
  pointer leaves the zone at 1900 ms, the navbar is hidden 100 ms later.
\<close>

theorem navbar_initial_timer_counterexample:
  "navHidden (run [Wait 1000, MouseMove 50, Wait 1000] (Navbar False))
   \<and> outsideSince None 0 [Wait 1000, MouseMove 50, Wait 1000] = None
   \<and> navHidden (run [MouseMove 50, Wait 1900, MouseMove 150, Wait 100] (Navbar False))
   \<and> outsideSince None 0 [MouseMove 50, Wait 1900, MouseMove 150, Wait 100] = Some 1900
   \<and> now (run [MouseMove 50, Wait 1900, MouseMove 150, Wait 100] (Navbar False)) = 2000"
  by (simp add: Navbar_def mousemove_def fireTimers_def)

section \<open>Adding a batch of files\<close>

subsection \<open>The loop over the files\<close>

lemma length_updateCell: "length (updateCell i f cs) = length cs"
  by (simp add: updateCell_def)

lemma safe_startsWith: "t \<in> set safeVideoTypes \<Longrightarrow> startsWith t ''video/''"
  by (auto simp: safeVideoTypes_def startsWith_def)

lemma createObjectURL_nonempty: "createObjectURL f \<noteq> []"
  by (simp add: createObjectURL_def)

lemma src_showVideo: "src (showVideo b (createObjectURL f) c) = createObjectURL f"
  by (simp add: showVideo_def setVideoSrc_def createObjectURL_def)

lemma isEmpty_showVideo: "\<not> isEmpty (showVideo b u c)"
  by (simp add: showVideo_def setVideoSrc_def)

lemma addVideoToCell_safe:
  "fileType f \<in> set safeVideoTypes \<Longrightarrow>
   addVideoToCell cfg c f vg =
     (if validFile cfg f
      then vg\<lparr>gridCells := updateCell c (showVideo (documentURL vg) (createObjectURL f))
                              (gridCells vg)\<rparr>
      else vg\<lparr>console := console vg @ map Error (rejection cfg f),
              errorMessages := errorMessages vg @ rejection cfg f\<rparr>, None)"
  by (auto simp: addVideoToCell_def validFile_def rejection_def catchError_def)

lemma rejection_valid: "validFile cfg f \<Longrightarrow> rejection cfg f = []"
  by (auto simp: validFile_def rejection_def)

lemma rejection_unsafe: "fileType f \<notin> set safeVideoTypes \<Longrightarrow> rejection cfg f = []"
  by (simp add: rejection_def)

lemma addFiles_skip:
  "\<not> startsWith (fileType f) ''video/'' \<Longrightarrow>
   addFiles cfg E (f # fs) idx vg = addFiles cfg E fs idx vg"
  by simp

lemma addFiles_take:
  "fileType f \<in> set safeVideoTypes \<Longrightarrow> 0 \<le> idx \<Longrightarrow> idx < int (length E) \<Longrightarrow>
   addFiles cfg E (f # fs) idx vg =
     addFiles cfg E fs (idx + 1) (fst (addVideoToCell cfg (E ! nat idx) f vg))"
  by (simp add: safe_startsWith addVideoToCell_safe)

text \<open>
  Without a cell at the running index, which is the case from the start when the start
  cell is not among the empty cells, the loop does nothing at all.
\<close>

lemma addFiles_no_cell: "idx < 0 \<Longrightarrow> addFiles cfg E fs idx vg = (vg, None)"
  by (induction fs) simp_all

lemma slot_0: "slot fs 0 = 0"
  by (simp add: slot_def)

lemma slot_Cons_Suc:
  "slot (f # fs) (Suc p) = (if startsWith (fileType f) ''video/'' then Suc (slot fs p) else slot fs p)"
  by (simp add: slot_def)

lemma slot_le: "slot fs p \<le> p"
proof -
  have "slot fs p \<le> length (take p fs)" unfolding slot_def by (rule length_filter_le)
  then show ?thesis by simp
qed

lemma slot_Suc:
  "p < length fs \<Longrightarrow>
   slot fs (Suc p) = (if startsWith (fileType (fs ! p)) ''video/'' then Suc (slot fs p) else slot fs p)"
  by (simp add: slot_def take_Suc_conv_app_nth)

lemma slot_mono: "p \<le> q \<Longrightarrow> q \<le> length fs \<Longrightarrow> slot fs p \<le> slot fs q"
proof (induction q)
  case 0
  then show ?case by simp
next
  case (Suc q)
  show ?case
  proof (cases "p = Suc q")
    case True
    then show ?thesis by simp
  next
    case False
    with Suc.prems have "p \<le> q" "q < length fs" by simp_all
    with Suc.IH have "slot fs p \<le> slot fs q" by simp
    also have "slot fs q \<le> slot fs (Suc q)" using \<open>q < length fs\<close> by (simp add: slot_Suc)
    finally show ?thesis .
  qed
qed

lemma slot_less:
  assumes "p < q" and "q \<le> length fs" and "startsWith (fileType (fs ! p)) ''video/''"
  shows "slot fs p < slot fs q"
proof -
  from assms(1,2) have p: "p < length fs" by simp
  with assms(3) have "slot fs p < slot fs (Suc p)" by (simp add: slot_Suc)
  also have "slot fs (Suc p) \<le> slot fs q" using assms(1,2) by (intro slot_mono) simp_all
  finally show ?thesis .
qed

text \<open>
  The invariant of the loop, for a batch in which no file makes \<^verbatim>\<open>addVideoToCell\<close>
  throw before its \<^verbatim>\<open>try\<close>: as long as the empty cells from the running index on are
  as many as the files left, the loop ends without an error, passes one message to
  \<^verbatim>\<open>showErrorMessage\<close> for each file rejected inside the \<^verbatim>\<open>try\<close>, shows every valid
  file in the cell at its slot and leaves every other cell as it was.
\<close>

lemma addFiles_batch:
  assumes "distinct E" and "\<forall>i\<in>set E. i < length (gridCells vg)" and "0 \<le> idx"
    and "idx + int (length fs) \<le> int (length E)" and "\<forall>f\<in>set fs. handled f"
  shows "batchPost cfg E fs idx vg (addFiles cfg E fs idx vg)"
  using assms
proof (induction fs arbitrary: idx vg)
  case Nil
  then show ?case by (simp add: batchPost_def)
next
  case (Cons f fs)
  show ?case
  proof (cases "fileType f \<in> set safeVideoTypes")
    case False
    with Cons.prems(5) have skip: "\<not> startsWith (fileType f) ''video/''"
      by (simp add: handled_def)
    let ?res = "addFiles cfg E fs idx vg"
    have IH: "batchPost cfg E fs idx vg ?res"
      using Cons.prems by (intro Cons.IH) auto
    have inv: "\<not> validFile cfg f" using False by (simp add: validFile_def)
    have sl: "slot (f # fs) (Suc q) = slot fs q" for q
      using skip by (simp add: slot_Cons_Suc)
    have shown: "gridCells (fst ?res) ! (E ! (nat idx + slot (f # fs) p))
                   = showVideo (documentURL vg) (createObjectURL ((f # fs) ! p))
                       (gridCells vg ! (E ! (nat idx + slot (f # fs) p)))"
      if "p < length (f # fs)" "validFile cfg ((f # fs) ! p)" for p
    proof (cases p)
      case 0
      with that inv show ?thesis by simp
    next
      case (Suc q)
      with that IH show ?thesis by (simp add: batchPost_def sl)
    qed
    have kept: "gridCells (fst ?res) ! j = gridCells vg ! j"
      if "j < length (gridCells vg)"
        and "\<forall>p<length (f # fs). validFile cfg ((f # fs) ! p) \<longrightarrow>
               E ! (nat idx + slot (f # fs) p) \<noteq> j" for j
    proof -
      have "E ! (nat idx + slot fs q) \<noteq> j" if "q < length fs" "validFile cfg (fs ! q)" for q
        using \<open>\<forall>p<length (f # fs). _\<close> [rule_format, of "Suc q"] that by (simp add: sl)
      with IH that(1) show ?thesis by (simp add: batchPost_def)
    qed
    from IH have "snd ?res = None" "length (gridCells (fst ?res)) = length (gridCells vg)"
      "documentURL (fst ?res) = documentURL vg"
      "errorMessages (fst ?res) = errorMessages vg @ concat (map (rejection cfg) (f # fs))"
      using False by (simp_all add: batchPost_def rejection_unsafe)
    with shown kept show ?thesis
      unfolding addFiles_skip [OF skip] batchPost_def by blast
  next
    case True
    from Cons.prems have range: "0 \<le> idx" "idx < int (length E)" by auto
    let ?c = "E ! nat idx"
    let ?vg1 = "fst (addVideoToCell cfg ?c f vg)"
    let ?res = "addFiles cfg E fs (idx + 1) ?vg1"
    have c: "?c < length (gridCells vg)" using range Cons.prems(2) by simp
    have len1: "length (gridCells ?vg1) = length (gridCells vg)"
      by (simp add: addVideoToCell_safe [OF True] length_updateCell)
    have url1: "documentURL ?vg1 = documentURL vg"
      by (simp add: addVideoToCell_safe [OF True])
    have msg1: "errorMessages ?vg1 = errorMessages vg @ rejection cfg f"
      by (simp add: addVideoToCell_safe [OF True] rejection_valid)
    have other: "gridCells ?vg1 ! j = gridCells vg ! j" if "j \<noteq> ?c" for j
      using that by (simp add: addVideoToCell_safe [OF True] updateCell_def)
    have here: "gridCells ?vg1 ! ?c = showVideo (documentURL vg) (createObjectURL f) (gridCells vg ! ?c)"
      if "validFile cfg f"
      using that c by (simp add: addVideoToCell_safe [OF True] updateCell_def)
    have rejected: "gridCells ?vg1 = gridCells vg" if "\<not> validFile cfg f"
      using that by (simp add: addVideoToCell_safe [OF True])
    have IH: "batchPost cfg E fs (idx + 1) ?vg1 ?res"
      using Cons.prems len1 by (intro Cons.IH) auto
    have eq: "addFiles cfg E (f # fs) idx vg = ?res"
      by (rule addFiles_take [OF True range])
    have sl: "slot (f # fs) (Suc q) = Suc (slot fs q)" for q
      using safe_startsWith [OF True] by (simp add: slot_Cons_Suc)
    have nat1: "nat (idx + 1) + n = nat idx + Suc n" for n
      using range(1) by simp
    have later: "E ! (nat idx + Suc (slot fs q)) \<noteq> ?c" if "q < length fs" for q
    proof -
      have "slot fs q \<le> q" by (rule slot_le)
      with that Cons.prems(4) range(1) have "nat idx + Suc (slot fs q) < length E" by simp
      with range Cons.prems(1) show ?thesis by (simp add: nth_eq_iff_index_eq)
    qed
    have shown: "gridCells (fst ?res) ! (E ! (nat idx + slot (f # fs) p))
                   = showVideo (documentURL vg) (createObjectURL ((f # fs) ! p))
                       (gridCells vg ! (E ! (nat idx + slot (f # fs) p)))"
      if "p < length (f # fs)" "validFile cfg ((f # fs) ! p)" for p
    proof (cases p)
      case 0
      have "\<forall>q<length fs. validFile cfg (fs ! q) \<longrightarrow> E ! (nat (idx + 1) + slot fs q) \<noteq> ?c"
        using later by (simp add: nat1)
      with IH c len1 have "gridCells (fst ?res) ! ?c = gridCells ?vg1 ! ?c"
        by (simp add: batchPost_def)
      with 0 that(2) here show ?thesis by (simp add: slot_0)
    next
      case (Suc q)
      with that have q: "q < length fs" "validFile cfg (fs ! q)" by simp_all
      with IH have "gridCells (fst ?res) ! (E ! (nat idx + Suc (slot fs q)))
                      = showVideo (documentURL vg) (createObjectURL (fs ! q))
                          (gridCells ?vg1 ! (E ! (nat idx + Suc (slot fs q))))"
        by (simp add: batchPost_def nat1 url1)
      with other [OF later [OF q(1)]] Suc show ?thesis by (simp add: sl)
    qed
    have kept: "gridCells (fst ?res) ! j = gridCells vg ! j"
      if "j < length (gridCells vg)"
        and "\<forall>p<length (f # fs). validFile cfg ((f # fs) ! p) \<longrightarrow>
               E ! (nat idx + slot (f # fs) p) \<noteq> j" for j
    proof -
      have "E ! (nat (idx + 1) + slot fs q) \<noteq> j" if "q < length fs" "validFile cfg (fs ! q)" for q
        using \<open>\<forall>p<length (f # fs). _\<close> [rule_format, of "Suc q"] that by (simp add: sl nat1)
      with IH that(1) len1 have "gridCells (fst ?res) ! j = gridCells ?vg1 ! j"
        by (simp add: batchPost_def)
      also have "gridCells ?vg1 ! j = gridCells vg ! j"
      proof (cases "validFile cfg f")
        case True
        with \<open>\<forall>p<length (f # fs). _\<close> [rule_format, of 0] have "j \<noteq> ?c" by (auto simp: slot_0)
        then show ?thesis by (rule other)
      next
        case False
        then show ?thesis by (simp add: rejected)
      qed
      finally show ?thesis .
    qed
    from IH have "snd ?res = None" "length (gridCells (fst ?res)) = length (gridCells vg)"
      "documentURL (fst ?res) = documentURL vg"
      "errorMessages (fst ?res) = errorMessages vg @ concat (map (rejection cfg) (f # fs))"
      by (simp_all add: batchPost_def len1 url1 msg1)
    with shown kept show ?thesis
      unfolding eq batchPost_def by blast
  qed
qed

lemma length_addVideoToCell:
  "length (gridCells (fst (addVideoToCell cfg c f vg))) = length (gridCells vg)"
  by (simp add: addVideoToCell_def catchError_def length_updateCell)

lemma length_addFiles:
  "length (gridCells (fst (addFiles cfg E fs idx vg))) = length (gridCells vg)"
proof (induction fs arbitrary: idx vg)
  case Nil
  then show ?case by simp
next
  case (Cons f fs)
  show ?case
  proof (cases "addVideoToCell cfg (E ! nat idx) f vg")
    case (Pair vg' e)
    with length_addVideoToCell [of cfg "E ! nat idx" f vg]
    have "length (gridCells vg') = length (gridCells vg)" by simp
    with Pair Cons.IH show ?thesis
      by (cases e) (simp_all)
  qed
qed

subsection \<open>The empty cells and the extension of the grid\<close>

lemma indexOf_mem: "x \<in> set xs \<Longrightarrow> 0 \<le> indexOf xs x \<and> indexOf xs x < int (length xs)"
  by (induction xs) (auto simp: Let_def)

lemma indexOf_not_mem: "x \<notin> set xs \<Longrightarrow> indexOf xs x = - 1"
  by (induction xs) (auto simp: Let_def)

lemma distinct_emptyCellsOf: "distinct (emptyCellsOf cs)"
  by (simp add: emptyCellsOf_def)

lemma emptyCellsOf_bound: "i \<in> set (emptyCellsOf cs) \<Longrightarrow> i < length cs"
  by (simp add: emptyCellsOf_def)

lemma emptyCellsOf_isEmpty: "i \<in> set (emptyCellsOf cs) \<Longrightarrow> isEmpty (cs ! i)"
  by (simp add: emptyCellsOf_def)

lemma length_emptyCellsOf: "length (emptyCellsOf cs) = length (filter isEmpty cs)"
proof -
  have "{i. i < length cs \<and> isEmpty (cs ! ([0..<length cs] ! i))}
          = {i. i < length cs \<and> isEmpty (cs ! i)}"
    by auto
  then show ?thesis by (simp add: emptyCellsOf_def length_filter_conv_card)
qed

lemma emptyCellsOf_all:
  "\<forall>c\<in>set cs. isEmpty c \<Longrightarrow> emptyCellsOf cs = [0..<length cs]"
  unfolding emptyCellsOf_def by (rule filter_True) simp

lemma isEmpty_createVideoCell: "isEmpty (createVideoCell i)"
  by (simp add: createVideoCell_def addTagToCell_def)

lemma gridCells_extendGrid:
  "0 < columns (layoutConfigOf cfg vg) \<Longrightarrow>
   gridCells (extendGrid cfg n vg) =
     gridCells vg @ map (\<lambda>i. createVideoCell (length (gridCells vg) + i))
       [0..<((n + columns (layoutConfigOf cfg vg) - 1) div columns (layoutConfigOf cfg vg))
             * columns (layoutConfigOf cfg vg)]"
  by (simp add: extendGrid_def fullRows_def Let_def)

lemma errorMessages_extendGrid: "errorMessages (extendGrid cfg n vg) = errorMessages vg"
  by (simp add: extendGrid_def Let_def split: option.splits)

lemma documentURL_extendGrid: "documentURL (extendGrid cfg n vg) = documentURL vg"
  by (simp add: extendGrid_def Let_def split: option.splits)

lemma gridCells_setupScrollHandler: "gridCells (setupScrollHandler vg) = gridCells vg"
  by (simp add: setupScrollHandler_def)

lemma errorMessages_setupScrollHandler: "errorMessages (setupScrollHandler vg) = errorMessages vg"
  by (simp add: setupScrollHandler_def)

lemma documentURL_setupScrollHandler: "documentURL (setupScrollHandler vg) = documentURL vg"
  by (simp add: setupScrollHandler_def)

text \<open>
  \<^verbatim>\<open>Math.ceil(n / c) * c\<close> is the least multiple of \<open>c\<close> that is not below \<open>n\<close>.
\<close>

lemma ceil_rows_least:
  fixes n c :: nat
  assumes "0 < c"
  shows "c dvd ((n + c - 1) div c) * c"
    and "n \<le> ((n + c - 1) div c) * c"
    and "c dvd k \<Longrightarrow> n \<le> k \<Longrightarrow> ((n + c - 1) div c) * c \<le> k"
proof -
  show "c dvd ((n + c - 1) div c) * c" by simp
  have "n + c - 1 < ((n + c - 1) div c) * c + c"
    using assms by (metis add.commute dividend_less_times_div mult.commute)
  then show "n \<le> ((n + c - 1) div c) * c" by linarith
  assume "c dvd k" and "n \<le> k"
  then obtain j where k: "k = c * j" by (auto simp: dvd_def)
  have "(n + c - 1) div c \<le> (c * j + c - 1) div c"
    using \<open>n \<le> k\<close> k by (intro div_le_mono) simp
  also have "(c * j + c - 1) div c = j"
  proof -
    have "c * j + c - 1 = (c - 1) + j * c" using assms by (simp add: mult.commute)
    then have "(c * j + c - 1) div c = j + (c - 1) div c"
      using assms by (simp only: div_mult_self1 [of c "c - 1" j])
    then show ?thesis using assms by simp
  qed
  finally show "((n + c - 1) div c) * c \<le> k"
    using k by (simp add: mult.commute)
qed

text \<open>
  \<^verbatim>\<open>addMultipleVideos\<close> runs the loop on the grid \<open>grown\<close>, with room in the empty cells
  for every file of the batch.
\<close>

lemma addMultipleVideos_post:
  assumes "startCell \<in> set (emptyCellsOf (gridCells vg))"
    and "0 < columns (layoutConfigOf cfg vg)"
    and "\<forall>f\<in>set files. handled f"
  shows "\<exists>vg0. batchPost cfg (emptyCellsOf (gridCells (grown cfg files startCell vg))) files
                 (indexOf (emptyCellsOf (gridCells vg)) startCell) vg0
                 (addMultipleVideos cfg files startCell vg)
              \<and> errorMessages vg0 = errorMessages vg
              \<and> documentURL vg0 = documentURL vg
              \<and> gridCells vg0 = gridCells (grown cfg files startCell vg)
              \<and> indexOf (emptyCellsOf (gridCells vg)) startCell + int (length files)
                  \<le> int (length (emptyCellsOf (gridCells (grown cfg files startCell vg))))"
proof -
  let ?E0 = "emptyCellsOf (gridCells vg)"
  let ?idx = "indexOf ?E0 startCell"
  let ?n = "length files"
  from indexOf_mem [OF assms(1)] have idx: "0 \<le> ?idx" "?idx < int (length ?E0)" by auto
  show ?thesis
  proof (cases "?idx + int ?n > int (length ?E0)")
    case False
    then have eq: "addMultipleVideos cfg files startCell vg = addFiles cfg ?E0 files ?idx vg"
      and g: "grown cfg files startCell vg = vg"
      by (simp_all add: addMultipleVideos_def grown_def Let_def)
    have "batchPost cfg ?E0 files ?idx vg (addFiles cfg ?E0 files ?idx vg)"
      using False idx assms(3)
      by (intro addFiles_batch) (auto simp: distinct_emptyCellsOf emptyCellsOf_bound)
    with False show ?thesis
      unfolding eq g by (intro exI [of _ vg]) simp
  next
    case True
    let ?c = "columns (layoutConfigOf cfg vg)"
    let ?m = "((?n + ?c - 1) div ?c) * ?c"
    let ?vg1 = "extendGrid cfg ?n vg"
    let ?vg2 = "setupScrollHandler (?vg1\<lparr>isExtended := True\<rparr>)"
    let ?E1 = "emptyCellsOf (gridCells ?vg1)"
    from True have eq: "addMultipleVideos cfg files startCell vg = addFiles cfg ?E1 files ?idx ?vg2"
      and g: "grown cfg files startCell vg = ?vg1"
      by (simp_all add: addMultipleVideos_def grown_def Let_def)
    have cells2: "gridCells ?vg2 = gridCells ?vg1"
      by (simp add: gridCells_setupScrollHandler)
    have "length ?E1 = length ?E0 + ?m"
      by (simp add: length_emptyCellsOf gridCells_extendGrid [OF assms(2)] isEmpty_createVideoCell
          o_def)
    moreover have "?n \<le> ?m" by (rule ceil_rows_least(2) [OF assms(2)])
    ultimately have room: "?idx + int ?n \<le> int (length ?E1)" using idx by linarith
    have "batchPost cfg ?E1 files ?idx ?vg2 (addFiles cfg ?E1 files ?idx ?vg2)"
      using room idx assms(3)
      by (intro addFiles_batch) (auto simp: distinct_emptyCellsOf cells2 dest: emptyCellsOf_bound)
    moreover have "errorMessages ?vg2 = errorMessages vg"
      by (simp add: errorMessages_setupScrollHandler errorMessages_extendGrid)
    moreover have "documentURL ?vg2 = documentURL vg"
      by (simp add: documentURL_setupScrollHandler documentURL_extendGrid)
    ultimately show ?thesis
      unfolding eq g using room cells2 by (intro exI [of _ ?vg2]) simp
  qed
qed

subsection \<open>The sample grid and files\<close>

lemma emptyCellsOf_grid2x2: "emptyCellsOf (gridCells grid2x2) = [0, 1, 2, 3]"
  by (simp add: emptyCellsOf_def grid2x2_def gridOf_def createVideoCell_def addTagToCell_def upt_rec)

lemma grid2x2_fields:
  "errorMessages grid2x2 = []" "length (gridCells grid2x2) = 4"
  "columns (layoutConfigOf sampleConfig grid2x2) = 2" "documentURL grid2x2 = pageURL"
  by (simp_all add: grid2x2_def gridOf_def layoutConfigOf_def sampleConfig_def)

lemma grid2x2_cells:
  "gridCells grid2x2 ! 0 = createVideoCell 0" "gridCells grid2x2 ! 1 = createVideoCell 1"
  "gridCells grid2x2 ! 2 = createVideoCell 2" "gridCells grid2x2 ! 3 = createVideoCell 3"
  "gridCells grid2x2 ! Suc 0 = createVideoCell (Suc 0)"
  by (simp_all add: grid2x2_def gridOf_def)

lemma emptyCellsOf_firstLoadedGrid: "emptyCellsOf (gridCells firstLoadedGrid) = [1, 2, 3]"
  by (simp add: emptyCellsOf_def firstLoadedGrid_def gridOf_def loadedCell_def showVideo_def
      setVideoSrc_def createVideoCell_def addTagToCell_def upt_rec)

lemma handled_samples: "handled textFile" "handled bigFile" "handled (mp4 u)"
  by (simp_all add: handled_def textFile_def bigFile_def mp4_def safeVideoTypes_def startsWith_def)

lemma rejection_samples:
  "rejection sampleConfig textFile = []" "rejection sampleConfig bigFile = [FileTooLarge]"
  "rejection sampleConfig (mp4 u) = []" "validFile sampleConfig (mp4 u)"
  "\<not> validFile sampleConfig textFile" "\<not> validFile sampleConfig bigFile"
  by (simp_all add: rejection_def validFile_def textFile_def bigFile_def mp4_def safeVideoTypes_def
      sampleConfig_def MAX_FILE_SIZE_def)

lemma startsWith_samples:
  "\<not> startsWith (fileType textFile) ''video/''" "startsWith (fileType aviFile) ''video/''"
  "startsWith (fileType (mp4 u)) ''video/''" "startsWith (fileType bigFile) ''video/''"
  by (simp_all add: startsWith_def textFile_def aviFile_def mp4_def bigFile_def)

lemma createObjectURL_mp4: "createObjectURL (mp4 u) = ''blob:'' @ u"
  by (simp add: createObjectURL_def mp4_def)

lemma addVideoToCell_mp4:
  "addVideoToCell sampleConfig c (mp4 u) vg =
     (vg\<lparr>gridCells := updateCell c (showVideo (documentURL vg) (''blob:'' @ u)) (gridCells vg)\<rparr>, None)"
  by (simp add: addVideoToCell_def createObjectURL_def mp4_def safeVideoTypes_def sampleConfig_def
      MAX_FILE_SIZE_def)

lemma addVideoToCell_avi:
  "addVideoToCell cfg c aviFile vg = (vg, Some (Error UnsupportedFormat))"
  by (simp add: addVideoToCell_def aviFile_def safeVideoTypes_def)

lemma extendGrid_grid2x2:
  "gridCells (extendGrid sampleConfig 5 grid2x2) = map createVideoCell [0..<10]"
  by (simp add: extendGrid_def fullRows_def layoutConfigOf_def sampleConfig_def grid2x2_def
      gridOf_def upt_rec createVideoCell_def addTagToCell_def)

subsection \<open>Rejected files in a batch\<close>

text \<open>
  Claim C1, as amended. Let the start cell be one of the empty cells, let the layout
  have at least one column, and let no file of the batch have a type that starts with
  \<^verbatim>\<open>video/\<close> and is not on the whitelist of \<^verbatim>\<open>addVideoToCell\<close>. Then
  \<^verbatim>\<open>addMultipleVideos\<close> returns without an error; \<^verbatim>\<open>showErrorMessage\<close> is called
  once, in the order of the batch, for every whitelisted file whose type is not in
  \<^verbatim>\<open>CONFIG.supportedFormats\<close> or whose size is over the limit, and not at all for a
  file whose type does not start with \<^verbatim>\<open>video/\<close>, which is skipped silently. The grid
  afterwards is the grid \<open>grown\<close>, extended if the batch did not fit, in which every valid
  file is shown in a cell of its own that was empty, the cell \<open>cellFor\<close> of its position
  in the batch, and every other cell is as it was: no skipped and no rejected file is
  loaded, and no loaded video is replaced.
\<close>

theorem addMultipleVideos_batch:
  assumes "startCell \<in> set (emptyCellsOf (gridCells vg))"
    and "0 < columns (layoutConfigOf cfg vg)"
    and "\<forall>f\<in>set files. handled f"
  shows "snd (addMultipleVideos cfg files startCell vg) = None
         \<and> errorMessages (fst (addMultipleVideos cfg files startCell vg))
             = errorMessages vg @ concat (map (rejection cfg) files)
         \<and> length (gridCells (fst (addMultipleVideos cfg files startCell vg)))
             = length (gridCells (grown cfg files startCell vg))
         \<and> (\<forall>p<length files. validFile cfg (files ! p) \<longrightarrow>
               cellFor cfg files startCell vg p < length (gridCells (grown cfg files startCell vg))
               \<and> isEmpty (gridCells (grown cfg files startCell vg) ! cellFor cfg files startCell vg p)
               \<and> gridCells (fst (addMultipleVideos cfg files startCell vg))
                     ! cellFor cfg files startCell vg p
                   = showVideo (documentURL vg) (createObjectURL (files ! p))
                       (gridCells (grown cfg files startCell vg) ! cellFor cfg files startCell vg p)
               \<and> (\<forall>q<p. validFile cfg (files ! q) \<longrightarrow>
                     cellFor cfg files startCell vg q \<noteq> cellFor cfg files startCell vg p))
         \<and> (\<forall>j<length (gridCells (grown cfg files startCell vg)).
               (\<forall>p<length files. validFile cfg (files ! p) \<longrightarrow> cellFor cfg files startCell vg p \<noteq> j)
               \<longrightarrow> gridCells (fst (addMultipleVideos cfg files startCell vg)) ! j
                     = gridCells (grown cfg files startCell vg) ! j)
         \<and> (\<forall>f\<in>set files. validFile cfg f \<longrightarrow>
               (\<exists>i<length (gridCells (fst (addMultipleVideos cfg files startCell vg))).
                   src (gridCells (fst (addMultipleVideos cfg files startCell vg)) ! i)
                     = createObjectURL f
                   \<and> \<not> isEmpty (gridCells (fst (addMultipleVideos cfg files startCell vg)) ! i)))"
proof -
  let ?res = "addMultipleVideos cfg files startCell vg"
  let ?g = "grown cfg files startCell vg"
  let ?E = "emptyCellsOf (gridCells ?g)"
  let ?idx = "indexOf (emptyCellsOf (gridCells vg)) startCell"
  from addMultipleVideos_post [OF assms] obtain vg0 where
    post: "batchPost cfg ?E files ?idx vg0 ?res"
    and msg: "errorMessages vg0 = errorMessages vg"
    and url: "documentURL vg0 = documentURL vg"
    and cells0: "gridCells vg0 = gridCells ?g"
    and room: "?idx + int (length files) \<le> int (length ?E)"
    by blast
  from indexOf_mem [OF assms(1)] have idx: "0 \<le> ?idx" by simp
  have cf: "cellFor cfg files startCell vg p = ?E ! (nat ?idx + slot files p)" for p
    by (simp add: cellFor_def)
  have inE: "nat ?idx + slot files p < length ?E" if "p < length files" for p
    using slot_le [of files p] that room idx by simp
  have len: "length (gridCells (fst ?res)) = length (gridCells ?g)"
    using post cells0 by (simp add: batchPost_def)
  have own: "cellFor cfg files startCell vg q \<noteq> cellFor cfg files startCell vg p"
    if "p < length files" "q < p" "validFile cfg (files ! q)" for p q
  proof -
    from that(3) have "startsWith (fileType (files ! q)) ''video/''"
      by (simp add: validFile_def safe_startsWith)
    with that(1,2) have "slot files q < slot files p" by (intro slot_less) simp_all
    moreover have "nat ?idx + slot files q < length ?E" using that(1,2) by (intro inE) simp
    ultimately show ?thesis
      using inE [OF that(1)] by (simp add: cf nth_eq_iff_index_eq distinct_emptyCellsOf)
  qed
  have shown: "cellFor cfg files startCell vg p < length (gridCells ?g)
      \<and> isEmpty (gridCells ?g ! cellFor cfg files startCell vg p)
      \<and> gridCells (fst ?res) ! cellFor cfg files startCell vg p
          = showVideo (documentURL vg) (createObjectURL (files ! p))
              (gridCells ?g ! cellFor cfg files startCell vg p)"
    if "p < length files" "validFile cfg (files ! p)" for p
  proof -
    have "cellFor cfg files startCell vg p \<in> set ?E"
      unfolding cf using inE [OF that(1)] by (rule nth_mem)
    then have "cellFor cfg files startCell vg p < length (gridCells ?g)"
      and "isEmpty (gridCells ?g ! cellFor cfg files startCell vg p)"
      by (simp_all add: emptyCellsOf_bound emptyCellsOf_isEmpty)
    moreover from post that
    have "gridCells (fst ?res) ! cellFor cfg files startCell vg p
          = showVideo (documentURL vg) (createObjectURL (files ! p))
              (gridCells ?g ! cellFor cfg files startCell vg p)"
      by (simp add: batchPost_def cf url cells0)
    ultimately show ?thesis by simp
  qed
  have kept: "gridCells (fst ?res) ! j = gridCells ?g ! j"
    if "j < length (gridCells ?g)"
      and "\<forall>p<length files. validFile cfg (files ! p) \<longrightarrow> cellFor cfg files startCell vg p \<noteq> j"
    for j
    using post that by (simp add: batchPost_def cf cells0)
  have loaded: "\<exists>i<length (gridCells (fst ?res)).
          src (gridCells (fst ?res) ! i) = createObjectURL f \<and> \<not> isEmpty (gridCells (fst ?res) ! i)"
    if "f \<in> set files" "validFile cfg f" for f
  proof -
    from that(1) obtain p where p: "p < length files" "files ! p = f"
      by (auto simp: in_set_conv_nth)
    with shown [of p] that(2) len
    have "cellFor cfg files startCell vg p < length (gridCells (fst ?res))"
      and "gridCells (fst ?res) ! cellFor cfg files startCell vg p
             = showVideo (documentURL vg) (createObjectURL f)
                 (gridCells ?g ! cellFor cfg files startCell vg p)"
      by simp_all
    then show ?thesis
      by (intro exI [of _ "cellFor cfg files startCell vg p"]) (simp add: src_showVideo isEmpty_showVideo)
  qed
  from post msg have "snd ?res = None"
    "errorMessages (fst ?res) = errorMessages vg @ concat (map (rejection cfg) files)"
    by (simp_all add: batchPost_def)
  with len shown own kept loaded show ?thesis by blast
qed

text \<open>
  A text file, a video over the size limit and a valid video, dropped on the first cell
  of an empty 2x2 grid: one message, for the second file; the second file has taken the
  first cell without being loaded, the third is shown in the second cell, and the other
  cells are as they were.
\<close>

theorem addMultipleVideos_batch_witness:
  "snd (addMultipleVideos sampleConfig [textFile, bigFile, mp4 ''a''] 0 grid2x2) = None
   \<and> errorMessages (fst (addMultipleVideos sampleConfig [textFile, bigFile, mp4 ''a''] 0 grid2x2))
       = [FileTooLarge]
   \<and> length (gridCells (fst (addMultipleVideos sampleConfig [textFile, bigFile, mp4 ''a''] 0 grid2x2)))
       = 4
   \<and> gridCells (fst (addMultipleVideos sampleConfig [textFile, bigFile, mp4 ''a''] 0 grid2x2)) ! 0
       = createVideoCell 0
   \<and> gridCells (fst (addMultipleVideos sampleConfig [textFile, bigFile, mp4 ''a''] 0 grid2x2)) ! 1
       = showVideo pageURL ''blob:a'' (createVideoCell 1)
   \<and> gridCells (fst (addMultipleVideos sampleConfig [textFile, bigFile, mp4 ''a''] 0 grid2x2)) ! 2
       = createVideoCell 2
   \<and> gridCells (fst (addMultipleVideos sampleConfig [textFile, bigFile, mp4 ''a''] 0 grid2x2)) ! 3
       = createVideoCell 3"
proof -
  let ?files = "[textFile, bigFile, mp4 ''a'']"
  let ?res = "addMultipleVideos sampleConfig ?files 0 grid2x2"
  have a: "0 \<in> set (emptyCellsOf (gridCells grid2x2))" by (simp add: emptyCellsOf_grid2x2)
  have b: "0 < columns (layoutConfigOf sampleConfig grid2x2)" by (simp add: grid2x2_fields)
  have c: "\<forall>f\<in>set ?files. handled f" by (simp add: handled_samples)
  have g: "grown sampleConfig ?files 0 grid2x2 = grid2x2"
    by (simp add: grown_def emptyCellsOf_grid2x2)
  have cf: "cellFor sampleConfig ?files 0 grid2x2 2 = 1"
    by (simp add: cellFor_def g emptyCellsOf_grid2x2 slot_def startsWith_samples)
  have v: "validFile sampleConfig (?files ! p) \<Longrightarrow> p < length ?files \<Longrightarrow> p = 2" for p
    by (auto simp: less_Suc_eq rejection_samples)
  have others: "\<forall>p<length ?files. validFile sampleConfig (?files ! p) \<longrightarrow>
                  cellFor sampleConfig ?files 0 grid2x2 p \<noteq> j" if "j \<noteq> 1" for j
    using v cf that by blast
  note post = addMultipleVideos_batch [OF a b c, unfolded g]
  from post have "snd ?res = None" by (rule conjunct1)
  moreover from post have "errorMessages (fst ?res)
      = errorMessages grid2x2 @ concat (map (rejection sampleConfig) ?files)"
    by (elim conjE)
  then have "errorMessages (fst ?res) = [FileTooLarge]"
    by (simp add: rejection_samples grid2x2_fields)
  moreover from post have "length (gridCells (fst ?res)) = length (gridCells grid2x2)"
    by (elim conjE)
  then have "length (gridCells (fst ?res)) = 4" by (simp add: grid2x2_fields)
  moreover from post have shown: "\<forall>p<length ?files. validFile sampleConfig (?files ! p) \<longrightarrow>
        cellFor sampleConfig ?files 0 grid2x2 p < length (gridCells grid2x2)
        \<and> isEmpty (gridCells grid2x2 ! cellFor sampleConfig ?files 0 grid2x2 p)
        \<and> gridCells (fst ?res) ! cellFor sampleConfig ?files 0 grid2x2 p
            = showVideo (documentURL grid2x2) (createObjectURL (?files ! p))
                (gridCells grid2x2 ! cellFor sampleConfig ?files 0 grid2x2 p)
        \<and> (\<forall>q<p. validFile sampleConfig (?files ! q) \<longrightarrow>
              cellFor sampleConfig ?files 0 grid2x2 q \<noteq> cellFor sampleConfig ?files 0 grid2x2 p)"
    by (elim conjE)
  have "gridCells (fst ?res) ! 1 = showVideo pageURL ''blob:a'' (createVideoCell 1)"
    using shown [THEN spec, of 2]
    by (simp add: cf rejection_samples grid2x2_fields grid2x2_cells createObjectURL_mp4)
  moreover from post have kept: "\<forall>j<length (gridCells grid2x2).
        (\<forall>p<length ?files. validFile sampleConfig (?files ! p) \<longrightarrow>
            cellFor sampleConfig ?files 0 grid2x2 p \<noteq> j)
        \<longrightarrow> gridCells (fst ?res) ! j = gridCells grid2x2 ! j"
    by (elim conjE)
  have "gridCells (fst ?res) ! 0 = createVideoCell 0"
    using kept [THEN spec, of 0] others [of 0] by (simp add: grid2x2_fields grid2x2_cells)
  moreover have "gridCells (fst ?res) ! 2 = createVideoCell 2"
    using kept [THEN spec, of 2] others [of 2] by (simp add: grid2x2_fields grid2x2_cells)
  moreover have "gridCells (fst ?res) ! 3 = createVideoCell 3"
    using kept [THEN spec, of 3] others [of 3] by (simp add: grid2x2_fields grid2x2_cells)
  ultimately show ?thesis by blast
qed

text \<open>
  The claim as stated fails in three ways. A text file in a batch is skipped without any
  error and without a call of \<^verbatim>\<open>showErrorMessage\<close>. For a file of type
  \<^verbatim>\<open>video/avi\<close> the error of the whitelist test, thrown before the \<^verbatim>\<open>try\<close>, leaves
  \<^verbatim>\<open>addMultipleVideos\<close>: \<^verbatim>\<open>showErrorMessage\<close> is not called and the valid file that
  follows is not loaded. And when the files are dropped on a loaded cell, which is not
  among the empty cells, the running index is -1 and the loop does nothing: the file over
  the size limit is not reported and the valid file that follows is not loaded.
\<close>

theorem addMultipleVideos_skip_abort_counterexample:
  "snd (addMultipleVideos sampleConfig [textFile, mp4 ''a''] 0 grid2x2) = None
   \<and> errorMessages (fst (addMultipleVideos sampleConfig [textFile, mp4 ''a''] 0 grid2x2)) = []
   \<and> snd (addMultipleVideos sampleConfig [aviFile, mp4 ''a''] 0 grid2x2)
       = Some (Error UnsupportedFormat)
   \<and> errorMessages (fst (addMultipleVideos sampleConfig [aviFile, mp4 ''a''] 0 grid2x2)) = []
   \<and> map src (gridCells (fst (addMultipleVideos sampleConfig [aviFile, mp4 ''a''] 0 grid2x2)))
       = [[], [], [], []]
   \<and> map isEmpty (gridCells firstLoadedGrid) = [False, True, True, True]
   \<and> addMultipleVideos sampleConfig [bigFile, mp4 ''a''] 0 firstLoadedGrid
       = (firstLoadedGrid, None)
   \<and> errorMessages firstLoadedGrid = []
   \<and> map src (gridCells firstLoadedGrid) = [''blob:0'', [], [], []]"
proof -
  have "snd (addMultipleVideos sampleConfig [textFile, mp4 ''a''] 0 grid2x2) = None
   \<and> errorMessages (fst (addMultipleVideos sampleConfig [textFile, mp4 ''a''] 0 grid2x2)) = []
   \<and> snd (addMultipleVideos sampleConfig [aviFile, mp4 ''a''] 0 grid2x2)
       = Some (Error UnsupportedFormat)
   \<and> errorMessages (fst (addMultipleVideos sampleConfig [aviFile, mp4 ''a''] 0 grid2x2)) = []
   \<and> map src (gridCells (fst (addMultipleVideos sampleConfig [aviFile, mp4 ''a''] 0 grid2x2)))
       = [[], [], [], []]"
    apply (simp add: addMultipleVideos_def emptyCellsOf_grid2x2 startsWith_samples addVideoToCell_mp4
        addVideoToCell_avi grid2x2_fields)
    apply (simp add: grid2x2_def gridOf_def createVideoCell_def addTagToCell_def)
    done
  moreover have "addMultipleVideos sampleConfig [bigFile, mp4 ''a''] 0 firstLoadedGrid
       = (firstLoadedGrid, None)"
    by (simp add: addMultipleVideos_def emptyCellsOf_firstLoadedGrid addFiles_no_cell
        del: addFiles.simps)
  moreover have "map isEmpty (gridCells firstLoadedGrid) = [False, True, True, True]"
    "errorMessages firstLoadedGrid = []"
    "map src (gridCells firstLoadedGrid) = [''blob:0'', [], [], []]"
    by (simp_all add: firstLoadedGrid_def gridOf_def loadedCell_def showVideo_def setVideoSrc_def
        createVideoCell_def addTagToCell_def)
  ultimately show ?thesis by simp
qed

text \<open>
  The hypothesis on the columns is needed. With a layout of no column the extension adds
  no cell: of a file over the size limit and four valid files dropped on the first cell
  of an empty grid of four cells, the first takes a cell without being loaded and the
  last finds none; it is not loaded and nothing is reported for it.
\<close>

lemma addMultipleVideos_no_column:
  "columns (layoutConfigOf noColumnConfig grid2x2) = 0
   \<and> snd (addMultipleVideos noColumnConfig [bigFile, mp4 ''a'', mp4 ''b'', mp4 ''c'', mp4 ''d''] 0
            grid2x2) = None
   \<and> errorMessages (fst (addMultipleVideos noColumnConfig
            [bigFile, mp4 ''a'', mp4 ''b'', mp4 ''c'', mp4 ''d''] 0 grid2x2)) = [FileTooLarge]
   \<and> map src (gridCells (fst (addMultipleVideos noColumnConfig
            [bigFile, mp4 ''a'', mp4 ''b'', mp4 ''c'', mp4 ''d''] 0 grid2x2)))
       = [[], ''blob:a'', ''blob:b'', ''blob:c'']"
proof -
  have big: "addVideoToCell noColumnConfig c bigFile vg = (catchError FileTooLarge vg, None)" for c vg
    by (simp add: addVideoToCell_def bigFile_def safeVideoTypes_def noColumnConfig_def
        sampleConfig_def MAX_FILE_SIZE_def)
  have ok: "addVideoToCell noColumnConfig c (mp4 u) vg =
     (vg\<lparr>gridCells := updateCell c (showVideo (documentURL vg) (''blob:'' @ u)) (gridCells vg)\<rparr>, None)"
    for c u vg
    by (simp add: addVideoToCell_def createObjectURL_def mp4_def safeVideoTypes_def
        noColumnConfig_def sampleConfig_def MAX_FILE_SIZE_def)
  have col: "columns (layoutConfigOf noColumnConfig grid2x2) = 0"
    by (simp add: layoutConfigOf_def noColumnConfig_def)
  have ext: "extendGrid noColumnConfig n grid2x2 = grid2x2" for n
    by (simp add: extendGrid_def fullRows_def col)
  have "addMultipleVideos noColumnConfig [bigFile, mp4 ''a'', mp4 ''b'', mp4 ''c'', mp4 ''d''] 0
          grid2x2
        = addFiles noColumnConfig [0, 1, 2, 3] [bigFile, mp4 ''a'', mp4 ''b'', mp4 ''c'', mp4 ''d''] 0
            (setupScrollHandler (grid2x2\<lparr>isExtended := True\<rparr>))"
    by (simp add: addMultipleVideos_def Let_def emptyCellsOf_grid2x2 ext del: addFiles.simps)
  then show ?thesis
    apply (simp add: col startsWith_samples big ok catchError_def setupScrollHandler_def
        updateCell_def grid2x2_fields)
    apply (simp add: grid2x2_def gridOf_def showVideo_def setVideoSrc_def createVideoCell_def
        addTagToCell_def)
    done
qed

subsection \<open>Growth of the grid\<close>

text \<open>
  Claim C4, as amended. Whenever the position of the start cell among the empty cells
  plus the number of files exceeds the number of empty cells, and the layout has at least
  one column, \<^verbatim>\<open>addMultipleVideos\<close> appends full rows: the cell count grows by the least
  multiple of the column count that is not below the number of files of the batch,
  however many cells were empty before.
\<close>

theorem addMultipleVideos_grows:
  assumes "int (length (emptyCellsOf (gridCells vg)))
             < indexOf (emptyCellsOf (gridCells vg)) startCell + int (length files)"
    and "0 < columns (layoutConfigOf cfg vg)"
  shows "\<exists>m. length (gridCells (fst (addMultipleVideos cfg files startCell vg)))
               = length (gridCells vg) + m
             \<and> columns (layoutConfigOf cfg vg) dvd m \<and> length files \<le> m
             \<and> (\<forall>k. columns (layoutConfigOf cfg vg) dvd k \<and> length files \<le> k \<longrightarrow> m \<le> k)"
proof -
  let ?c = "columns (layoutConfigOf cfg vg)"
  let ?m = "((length files + ?c - 1) div ?c) * ?c"
  have "length (gridCells (fst (addMultipleVideos cfg files startCell vg)))
          = length (gridCells (extendGrid cfg (length files) vg))"
    using assms(1)
    by (simp add: addMultipleVideos_def Let_def length_addFiles gridCells_setupScrollHandler)
  then have "length (gridCells (fst (addMultipleVideos cfg files startCell vg)))
          = length (gridCells vg) + ?m"
    by (simp add: gridCells_extendGrid [OF assms(2)])
  moreover have "?c dvd ?m" by simp
  moreover have "length files \<le> ?m" using ceil_rows_least(2) [OF assms(2)] .
  moreover have "\<forall>k. ?c dvd k \<and> length files \<le> k \<longrightarrow> ?m \<le> k"
    using ceil_rows_least(3) [OF assms(2)] by blast
  ultimately show ?thesis by blast
qed

theorem addMultipleVideos_grows_witness:
  "length (gridCells (fst (addMultipleVideos sampleConfig fiveFiles 0 grid2x2)))
     = length (gridCells grid2x2) + 6"
proof -
  have a: "int (length (emptyCellsOf (gridCells grid2x2)))
       < indexOf (emptyCellsOf (gridCells grid2x2)) 0 + int (length fiveFiles)"
    by (simp add: emptyCellsOf_grid2x2 fiveFiles_def)
  have b: "0 < columns (layoutConfigOf sampleConfig grid2x2)"
    by (simp add: grid2x2_fields)
  from addMultipleVideos_grows [OF a b] obtain m where
    len: "length (gridCells (fst (addMultipleVideos sampleConfig fiveFiles 0 grid2x2)))
            = length (gridCells grid2x2) + m"
    and m: "2 dvd m" "5 \<le> m" "\<forall>k. 2 dvd k \<and> 5 \<le> k \<longrightarrow> m \<le> k"
    by (auto simp: grid2x2_fields fiveFiles_def)
  from m(3) have "m \<le> 6" by simp
  with m(1,2) have "m = 6" by presburger
  with len show ?thesis by simp
qed

text \<open>
  The claim as stated fails: five files dropped on the first cell of an empty 2x2 grid
  with two columns fill five cells, for which six cells would do, and leave the grid
  with ten cells.
\<close>

theorem addMultipleVideos_overgrows:
  "length (emptyCellsOf (gridCells grid2x2)) = 4 \<and> length fiveFiles = 5
   \<and> columns (layoutConfigOf sampleConfig grid2x2) = 2
   \<and> map isEmpty (gridCells (fst (addMultipleVideos sampleConfig fiveFiles 0 grid2x2)))
       = [False, False, False, False, False, True, True, True, True, True]"
proof -
  have n: "length fiveFiles = 5" by (simp add: fiveFiles_def)
  have e: "emptyCellsOf (map createVideoCell [0..<10]) = [0..<10]"
    using emptyCellsOf_all [of "map createVideoCell [0..<10]"] by (simp add: isEmpty_createVideoCell)
  have "addMultipleVideos sampleConfig fiveFiles 0 grid2x2 =
          addFiles sampleConfig [0..<10] fiveFiles 0
            (setupScrollHandler ((extendGrid sampleConfig 5 grid2x2)\<lparr>isExtended := True\<rparr>))"
    by (simp add: addMultipleVideos_def Let_def emptyCellsOf_grid2x2 n extendGrid_grid2x2 e)
  then have "map isEmpty (gridCells (fst (addMultipleVideos sampleConfig fiveFiles 0 grid2x2)))
       = [False, False, False, False, False, True, True, True, True, True]"
    by (simp add: fiveFiles_def startsWith_samples addVideoToCell_mp4 gridCells_setupScrollHandler
        extendGrid_grid2x2 updateCell_def isEmpty_createVideoCell isEmpty_showVideo upt_rec)
  with n show ?thesis by (simp add: emptyCellsOf_grid2x2 grid2x2_fields)
qed


section \<open>Layout and aspect ratio toggles\<close>

lemma tagBadge_createVideoCell: "tagBadge (createVideoCell k) \<noteq> None"
  by (simp add: createVideoCell_def addTagToCell_def)

lemma restoreCell_badge:
  "tagBadge cell \<noteq> None \<Longrightarrow>
   snd (restoreCell base tm st cell) = None \<and> tagBadge (fst (restoreCell base tm st cell)) \<noteq> None"
  by (auto simp: restoreCell_def applyTag_def showVideo_def setVideoSrc_def hideVideo_def Let_def
      split: option.splits)

lemma length_restoreFrom: "length (fst (restoreFrom base tm states idx cs)) = length cs"
proof (induction states arbitrary: idx cs)
  case Nil
  then show ?case by simp
next
  case (Cons st states)
  show ?case
  proof (cases "restoreCell base tm st (cs ! idx)")
    case (Pair cell e)
    with Cons.IH show ?thesis by (cases e) simp_all
  qed
qed

text \<open>
  Written back into fresh cells, the snapshot never makes \<^verbatim>\<open>applyTag\<close> throw, and the
  cell at a position covered by the snapshot is the fresh cell with the saved state
  restored.
\<close>

lemma restoreFrom_nth:
  assumes "\<forall>c\<in>set cs. tagBadge c \<noteq> None"
  shows "snd (restoreFrom base tm states idx cs) = None
         \<and> (\<forall>j<length cs. fst (restoreFrom base tm states idx cs) ! j =
               (if idx \<le> j \<and> j < idx + length states
                then fst (restoreCell base tm (states ! (j - idx)) (cs ! j)) else cs ! j))"
  using assms
proof (induction states arbitrary: idx cs)
  case Nil
  then show ?case by auto
next
  case (Cons st states)
  show ?case
  proof (cases "idx < length cs")
    case False
    then have "restoreFrom base tm (st # states) idx cs = restoreFrom base tm states (idx + 1) cs" by simp
    with Cons.IH [OF Cons.prems, of "idx + 1"] False show ?thesis by auto
  next
    case True
    from True Cons.prems have b: "tagBadge (cs ! idx) \<noteq> None" by simp
    from restoreCell_badge [OF b, of base tm st] obtain cell where
      r: "restoreCell base tm st (cs ! idx) = (cell, None)" and b1: "tagBadge cell \<noteq> None"
      by (cases "restoreCell base tm st (cs ! idx)") auto
    let ?cs1 = "cs[idx := cell]"
    have eq: "restoreFrom base tm (st # states) idx cs = restoreFrom base tm states (idx + 1) ?cs1"
      using True by (simp add: r)
    have "\<forall>c\<in>set ?cs1. tagBadge c \<noteq> None"
      using Cons.prems b1 by (auto dest!: set_update_subset_insert [THEN subsetD])
    from Cons.IH [OF this, of "idx + 1"]
    have IH: "snd (restoreFrom base tm states (idx + 1) ?cs1) = None"
      "\<And>j. j < length cs \<Longrightarrow> fst (restoreFrom base tm states (idx + 1) ?cs1) ! j =
               (if idx + 1 \<le> j \<and> j < idx + 1 + length states
                then fst (restoreCell base tm (states ! (j - (idx + 1))) (?cs1 ! j)) else ?cs1 ! j)"
      by simp_all
    have "fst (restoreFrom base tm states (idx + 1) ?cs1) ! j =
               (if idx \<le> j \<and> j < idx + length (st # states)
                then fst (restoreCell base tm ((st # states) ! (j - idx)) (cs ! j)) else cs ! j)"
      if "j < length cs" for j
    proof (cases "j = idx")
      case True
      with IH(2) [OF that] \<open>idx < length cs\<close> show ?thesis by (simp add: r)
    next
      case False
      then have "(st # states) ! (j - idx) = states ! (j - (idx + 1))" if "idx \<le> j"
        using that by (simp add: nth_Cons')
      with IH(2) [OF \<open>j < length cs\<close>] False show ?thesis by auto
    qed
    with IH(1) show ?thesis unfolding eq by simp
  qed
qed

lemma restoreCell_fresh:
  "savedSrc st \<noteq> [] \<Longrightarrow>
   src (fst (restoreCell base tm st (createVideoCell k))) = savedSrc st
   \<and> \<not> isEmpty (fst (restoreCell base tm st (createVideoCell k)))
   \<and> currentTime (fst (restoreCell base tm st (createVideoCell k))) = 0
   \<and> paused (fst (restoreCell base tm st (createVideoCell k)))
   \<and> dataTag (fst (restoreCell base tm st (createVideoCell k)))
       = (if truthy (savedTag st) then savedTag st else None)"
  by (simp add: restoreCell_def showVideo_def setVideoSrc_def applyTag_def createVideoCell_def
      addTagToCell_def truthy_def Let_def split: option.splits)

lemma extendGrid_fresh:
  "set (gridCells vg) \<subseteq> range createVideoCell \<Longrightarrow>
   set (gridCells (extendGrid cfg n vg)) \<subseteq> range createVideoCell
   \<and> length (gridCells vg) \<le> length (gridCells (extendGrid cfg n vg))"
  by (auto simp: extendGrid_def Let_def split: option.splits)

lemma initGrid_fresh:
  "gridCells (initGrid cfg vg) = map createVideoCell [0..<cells (layoutConfigOf cfg vg)]"
  by (simp add: initGrid_def Let_def)

lemma layoutConfigOf_updateGridClass:
  "layoutConfigOf cfg (updateGridClass cfg vg) = layoutConfigOf cfg vg"
  by (simp add: layoutConfigOf_def updateGridClass_def)

lemma relayout_rebuilt:
  "\<exists>vg2. relayout cfg states vg = restoreVideoStates states vg2
         \<and> set (gridCells vg2) \<subseteq> range createVideoCell
         \<and> cells (layoutConfigOf cfg vg) \<le> length (gridCells vg2)"
proof -
  let ?vg1 = "initGrid cfg (updateGridClass cfg vg)"
  let ?lc = "layoutConfigOf cfg vg"
  let ?filled = "length (filter (\<lambda>cell. \<not> isEmpty cell) (gridCells vg))"
  let ?vg2 = "case fullRows ?filled (columns ?lc) of
                None \<Rightarrow> ?vg1
              | Some n \<Rightarrow>
                  if n > cells ?lc
                  then setupScrollHandler ((extendGrid cfg (n - cells ?lc) ?vg1)\<lparr>isExtended := True\<rparr>)
                  else ?vg1"
  have fresh1: "set (gridCells ?vg1) \<subseteq> range createVideoCell"
    and len1: "length (gridCells ?vg1) = cells ?lc"
    by (auto simp: initGrid_fresh layoutConfigOf_updateGridClass)
  have "relayout cfg states vg = restoreVideoStates states ?vg2"
    by (simp add: relayout_def Let_def)
  moreover have "set (gridCells ?vg2) \<subseteq> range createVideoCell \<and> cells ?lc \<le> length (gridCells ?vg2)"
    using fresh1 len1 extendGrid_fresh [OF fresh1]
    by (auto simp: gridCells_setupScrollHandler split: option.splits)
  ultimately show ?thesis by blast
qed

lemma relayout_restores:
  assumes "i < length states" and "savedSrc (states ! i) \<noteq> []"
    and "i < length (gridCells (fst (relayout cfg states vg)))"
  shows "snd (relayout cfg states vg) = None
         \<and> src (gridCells (fst (relayout cfg states vg)) ! i) = savedSrc (states ! i)
         \<and> \<not> isEmpty (gridCells (fst (relayout cfg states vg)) ! i)
         \<and> currentTime (gridCells (fst (relayout cfg states vg)) ! i) = 0
         \<and> paused (gridCells (fst (relayout cfg states vg)) ! i)
         \<and> dataTag (gridCells (fst (relayout cfg states vg)) ! i)
             = (if truthy (savedTag (states ! i)) then savedTag (states ! i) else None)"
proof -
  from relayout_rebuilt [of cfg states vg] obtain vg2 where
    eq: "relayout cfg states vg = restoreVideoStates states vg2"
    and fresh: "set (gridCells vg2) \<subseteq> range createVideoCell"
    by blast
  let ?cs = "gridCells vg2"
  let ?r = "restoreFrom (documentURL vg2) (tagManager vg2) states 0 ?cs"
  have res: "relayout cfg states vg = (vg2\<lparr>gridCells := fst ?r\<rparr>, snd ?r)"
    by (simp add: eq restoreVideoStates_def split_beta)
  have badges: "\<forall>c\<in>set ?cs. tagBadge c \<noteq> None"
    using fresh tagBadge_createVideoCell by auto
  have i: "i < length ?cs"
    using assms(3) by (simp add: res length_restoreFrom)
  then obtain k where k: "?cs ! i = createVideoCell k"
    using fresh by (metis imageE nth_mem subsetD)
  from restoreFrom_nth [OF badges, of "documentURL vg2" "tagManager vg2" states 0] i assms(1)
  have "snd ?r = None" and "fst ?r ! i = fst (restoreCell (documentURL vg2) (tagManager vg2) (states ! i) (createVideoCell k))"
    by (simp_all add: k)
  with restoreCell_fresh [OF assms(2), of "documentURL vg2" "tagManager vg2" k] show ?thesis
    by (simp add: res)
qed

lemma length_relayout:
  "cells (layoutConfigOf cfg vg) \<le> length (gridCells (fst (relayout cfg states vg)))"
proof -
  from relayout_rebuilt [of cfg states vg] obtain vg2 where
    "relayout cfg states vg = restoreVideoStates states vg2"
    "cells (layoutConfigOf cfg vg) \<le> length (gridCells vg2)"
    by blast
  then show ?thesis by (simp add: restoreVideoStates_def split_beta length_restoreFrom)
qed

lemma playingGrid_cell:
  "length (gridCells playingGrid) = 4"
  "src (gridCells playingGrid ! 0) = ''blob:0''"
  "\<not> isEmpty (gridCells playingGrid ! 0)"
  "dataTag (gridCells playingGrid ! 0) = Some ''a''"
  "currentTime (gridCells playingGrid ! 0) = 5000"
  "\<not> paused (gridCells playingGrid ! 0)"
  by (simp_all add: playingGrid_def gridOf_def Let_def applyTag_def loadedCell_def showVideo_def
      setVideoSrc_def createVideoCell_def addTagToCell_def)

lemma toggleLayout_playingGrid:
  "toggleLayout sampleConfig playingGrid =
     relayout sampleConfig (saveVideoStates playingGrid) (playingGrid\<lparr>currentLayout := ''3x3''\<rparr>)"
  by (simp add: toggleLayout_def Let_def playingGrid_def gridOf_def)

lemma length_toggleLayout_playingGrid:
  "9 \<le> length (gridCells (fst (toggleLayout sampleConfig playingGrid)))"
proof -
  have "cells (layoutConfigOf sampleConfig (playingGrid\<lparr>currentLayout := ''3x3''\<rparr>)) = 9"
    by (simp add: layoutConfigOf_def sampleConfig_def)
  with length_relayout [of sampleConfig "playingGrid\<lparr>currentLayout := ''3x3''\<rparr>"
      "saveVideoStates playingGrid"]
  show ?thesis by (simp only: toggleLayout_playingGrid)
qed

lemma sparseGrid_cells:
  "length (filter (\<lambda>cell. \<not> isEmpty cell) (gridCells sparseGrid)) = 1"
  "src (gridCells sparseGrid ! 8) = ''blob:8''"
  "\<not> isEmpty (gridCells sparseGrid ! 8)"
  by (simp_all add: sparseGrid_def gridOf_def filter_map o_def isEmpty_createVideoCell
      loadedCell_def isEmpty_showVideo nth_append showVideo_def setVideoSrc_def)

text \<open>
  Claim C2, as amended. \<^verbatim>\<open>toggleLayout\<close> and \<^verbatim>\<open>toggleAspectRatio\<close> rebuild the grid and
  write the snapshot back by position. For every loaded cell whose position still exists
  in the rebuilt grid, the source reference, the empty flag and the assigned tag are the
  same after the toggle as before; the playback position is not part of the snapshot and
  is 0 afterwards.
\<close>

theorem toggle_preserves_loaded_cell:
  assumes "toggle = toggleLayout cfg \<or> toggle = toggleAspectRatio cfg"
    and "i < length (gridCells vg)"
    and "src (gridCells vg ! i) \<noteq> []" and "\<not> isEmpty (gridCells vg ! i)"
    and "dataTag (gridCells vg ! i) \<noteq> Some []"
    and "i < length (gridCells (fst (toggle vg)))"
  shows "snd (toggle vg) = None
         \<and> src (gridCells (fst (toggle vg)) ! i) = src (gridCells vg ! i)
         \<and> isEmpty (gridCells (fst (toggle vg)) ! i) = isEmpty (gridCells vg ! i)
         \<and> dataTag (gridCells (fst (toggle vg)) ! i) = dataTag (gridCells vg ! i)
         \<and> currentTime (gridCells (fst (toggle vg)) ! i) = 0"
proof -
  let ?states = "saveVideoStates vg"
  have st: "i < length ?states" "savedSrc (?states ! i) = src (gridCells vg ! i)"
    "savedTag (?states ! i) = dataTag (gridCells vg ! i)"
    using assms(2) by (simp_all add: saveVideoStates_def)
  have tag: "(if truthy (dataTag (gridCells vg ! i)) then dataTag (gridCells vg ! i) else None)
               = dataTag (gridCells vg ! i)"
    using assms(5) by (cases "dataTag (gridCells vg ! i)") (simp_all add: truthy_def)
  from assms(1) obtain vg1 where t: "toggle vg = relayout cfg ?states vg1"
    by (auto simp: toggleLayout_def toggleAspectRatio_def Let_def)
  with assms(6) have len: "i < length (gridCells (fst (relayout cfg ?states vg1)))" by simp
  have "savedSrc (?states ! i) \<noteq> []" using assms(3) st(2) by simp
  from relayout_restores [OF st(1) this len] show ?thesis
    unfolding st(2) st(3) tag t using assms(4) by simp
qed

theorem toggle_preserves_loaded_cell_witness:
  "snd (toggleLayout sampleConfig playingGrid) = None
   \<and> src (gridCells (fst (toggleLayout sampleConfig playingGrid)) ! 0) = ''blob:0''
   \<and> isEmpty (gridCells (fst (toggleLayout sampleConfig playingGrid)) ! 0) = False
   \<and> dataTag (gridCells (fst (toggleLayout sampleConfig playingGrid)) ! 0) = Some ''a''
   \<and> currentTime (gridCells (fst (toggleLayout sampleConfig playingGrid)) ! 0) = 0"
proof -
  have a: "toggleLayout sampleConfig = toggleLayout sampleConfig
           \<or> toggleLayout sampleConfig = toggleAspectRatio sampleConfig" by simp
  have b: "0 < length (gridCells playingGrid)" by (simp add: playingGrid_cell)
  have c: "src (gridCells playingGrid ! 0) \<noteq> []" by (simp add: playingGrid_cell)
  have d: "\<not> isEmpty (gridCells playingGrid ! 0)" by (simp add: playingGrid_cell)
  have e: "dataTag (gridCells playingGrid ! 0) \<noteq> Some []" by (simp add: playingGrid_cell)
  have f: "0 < length (gridCells (fst (toggleLayout sampleConfig playingGrid)))"
    using length_toggleLayout_playingGrid by linarith
  from toggle_preserves_loaded_cell [OF a b c d e f] show ?thesis
    by (simp add: playingGrid_cell)
qed

text \<open>
  The claim as stated fails: a video that plays at 5000 ms is paused at position 0 after
  \<^verbatim>\<open>toggleLayout\<close>; and a video in the last cell of a 3x3 grid has no cell left in the
  2x2 grid of four cells that the toggle builds.
\<close>

theorem toggleLayout_resets_counterexample:
  "currentTime (gridCells playingGrid ! 0) = 5000
   \<and> paused (gridCells playingGrid ! 0) = False
   \<and> currentTime (gridCells (fst (toggleLayout sampleConfig playingGrid)) ! 0) = 0
   \<and> paused (gridCells (fst (toggleLayout sampleConfig playingGrid)) ! 0) = True
   \<and> src (gridCells sparseGrid ! 8) = ''blob:8''
   \<and> isEmpty (gridCells sparseGrid ! 8) = False
   \<and> length (gridCells (fst (toggleLayout sampleConfig sparseGrid))) = 4"
proof -
  let ?states = "saveVideoStates playingGrid"
  have st: "0 < length ?states" "savedSrc (?states ! 0) \<noteq> []"
    using playingGrid_cell(1,2) by (simp_all add: saveVideoStates_def)
  have len: "0 < length (gridCells (fst (relayout sampleConfig ?states
                (playingGrid\<lparr>currentLayout := ''3x3''\<rparr>))))"
    using length_toggleLayout_playingGrid unfolding toggleLayout_playingGrid by linarith
  from relayout_restores [OF st len]
  have "currentTime (gridCells (fst (toggleLayout sampleConfig playingGrid)) ! 0) = 0"
    "paused (gridCells (fst (toggleLayout sampleConfig playingGrid)) ! 0)"
    by (simp_all add: toggleLayout_playingGrid)
  moreover have "length (gridCells (fst (toggleLayout sampleConfig sparseGrid))) = 4"
  proof -
    have "toggleLayout sampleConfig sparseGrid =
            relayout sampleConfig (saveVideoStates sparseGrid) (sparseGrid\<lparr>currentLayout := ''2x2''\<rparr>)"
      by (simp add: toggleLayout_def Let_def sparseGrid_def gridOf_def)
    then show ?thesis
      by (simp add: relayout_def Let_def restoreVideoStates_def split_beta length_restoreFrom
          sparseGrid_cells layoutConfigOf_def sampleConfig_def fullRows_def initGrid_def
          updateGridClass_def)
  qed
  ultimately show ?thesis by (simp add: playingGrid_cell sparseGrid_cells)
qed

end
